theory Spec2Isabelle
  imports Main
begin

section \<open>The exec handler of caddy-exec-stream (middleware.go)\<close>

text \<open>
  The source file holds two versions of \<open>middleware.go\<close>; the model follows the second,
  which has the foreground mode and \<open>runAndCollectOutput\<close>. Its handler \<open>ServeHTTP\<close>
  resolves the argument templates of a command descriptor, runs the command in one of
  three ways and answers with a terse JSON status, a JSON object with the collected
  output, or a stream of server-sent events.

  The handler is a function of the descriptor and of an environment. The environment
  holds what the handler gets from outside: the replacer of the request, the programs
  of the host, the instant at which the handler runs and the instant at which the
  request is cancelled, whether the response writer can flush, whether its writes
  fail, what the next handler returns. The process of a command is its program run
  under the command's context, which kills it when the context is done first. Everything the
  handler does to the outside (headers, status, writes, log entries, commands created
  and started, calls of the next handler) is recorded in a state that is passed along.
\<close>

subsection \<open>Errors, process states, contexts\<close>

text \<open>
  \<open>syscall.WaitStatus\<close> as \<open>os.ProcessState\<close> reads it: the process exited with a
  status, or a signal ended it.
\<close>

datatype wait_status = Exited nat | Signaled nat

text \<open>\<open>ProcessState.Success\<close>: the process exited with status 0.\<close>

fun Success :: "wait_status \<Rightarrow> bool" where
  "Success (Exited n) = (n = 0)"
| "Success (Signaled _) = False"

text \<open>\<open>ProcessState.ExitCode\<close>: the exit status, or -1 when the process did not exit.\<close>

fun ExitCode :: "wait_status \<Rightarrow> int" where
  "ExitCode (Exited n) = int n"
| "ExitCode (Signaled _) = - 1"

text \<open>
  The Go error values the handler meets, by where they come from. \<open>ExitError\<close> is
  \<open>*exec.ExitError\<close> with its process state and the text of \<open>ProcessState.String\<close>;
  \<open>ExecError\<close> is any other error of \<open>os/exec\<close> (a pipe that cannot be created, a
  program that cannot be started, an I/O or context error of \<open>Wait\<close>); \<open>WriteError\<close> is an
  error of \<open>ResponseWriter.Write\<close>; \<open>HandlerError\<close> is an error of the next handler.
\<close>

datatype go_error =
    ExitError wait_status string
  | ExecError string
  | WriteError string
  | HandlerError string

text \<open>\<open>err.Error()\<close>.\<close>

fun Error_text :: "go_error \<Rightarrow> string" where
  "Error_text (ExitError _ t) = t"
| "Error_text (ExecError t) = t"
| "Error_text (WriteError t) = t"
| "Error_text (HandlerError t) = t"

text \<open>
  Instants and durations are integers (nanoseconds, as \<open>time.Duration\<close>). A context is
  the request's own context or a context derived from a parent with a deadline;
  \<open>context.WithTimeout parent d\<close> is \<open>context.WithDeadline parent (now + d)\<close>.
\<close>

datatype ctx = RequestContext | WithDeadline ctx int

definition WithTimeout :: "int \<Rightarrow> ctx \<Rightarrow> int \<Rightarrow> ctx" where
  "WithTimeout now parent d = WithDeadline parent (now + d)"

text \<open>
  The instant at which a context is done, given the instant at which the request's
  context is cancelled (\<open>None\<close>: never). A context with a deadline is done when its
  parent is done or when the deadline passes, whichever comes first.
\<close>

fun earliest :: "int option \<Rightarrow> int \<Rightarrow> int" where
  "earliest None d = d"
| "earliest (Some t) d = min t d"

fun Done_at :: "int option \<Rightarrow> ctx \<Rightarrow> int option" where
  "Done_at rq RequestContext = rq"
| "Done_at rq (WithDeadline parent d) = Some (earliest (Done_at rq parent) d)"

subsection \<open>The command descriptor\<close>

text \<open>
  Modelled from the spec: the declaration of the struct \<open>Cmd\<close> that \<open>Middleware\<close> embeds is
  not in \<open>middleware.go\<close>. The fields are the ones the handler reads (\<open>m.Command\<close>,
  \<open>m.Args\<close>, \<open>m.Directory\<close>, \<open>m.Foreground\<close>, \<open>m.PassThru\<close>, \<open>m.Stream\<close>, \<open>m.timeout\<close>), with
  the types of section 3 of the specification; \<open>timeout\<close> is a \<open>time.Duration\<close>.
\<close>

record Cmd =
  Command :: string
  Args :: "string list"
  Directory :: string
  Foreground :: bool
  PassThru :: bool
  Stream :: bool
  timeout :: int

subsection \<open>Commands and processes\<close>

text \<open>
  What \<open>exec.CommandContext(ctx, name, argv...)\<close> followed by \<open>cmd.Dir = dir\<close> builds.
\<close>

record exec_Cmd =
  cmd_ctx :: ctx
  cmd_name :: string
  cmd_argv :: "string list"
  cmd_Dir :: string

text \<open>
  What the handler observes of the process of a command: whether the two pipes can be
  created, whether the program starts, the bytes it writes to its standard output and
  standard error until it ends, the state it ends in with the text of that state, the
  error \<open>Wait\<close> reports besides (an I/O error) when the state is a success, and the
  instant at which the process ends.
\<close>

record process =
  stdout_pipe_error :: "string option"
  stderr_pipe_error :: "string option"
  start_error :: "string option"
  stdout_data :: string
  stderr_data :: string
  exit_state :: wait_status
  exit_text :: string
  wait_error :: "string option"
  ended_at :: int

text \<open>
  What a program does when nothing interrupts it: whether its pipes can be created,
  whether its executable is found (\<open>exec.LookPath\<close>) and whether it can be started
  (\<open>os.StartProcess\<close>), what it writes to its two streams and when (the time since its
  start, and the bytes), how long it runs, and how it ends.
\<close>

record program =
  pipe_error_stdout :: "string option"
  pipe_error_stderr :: "string option"
  lookup_error :: "string option"
  spawn_error :: "string option"
  stdout_writes :: "(nat \<times> string) list"
  stderr_writes :: "(nat \<times> string) list"
  run_time :: nat
  end_state :: wait_status
  end_text :: string
  io_error :: "string option"

text \<open>\<open>ctx.Err()\<close> of a context that is done: the request was cancelled, or the deadline passed.\<close>

fun ctx_Err :: "int option \<Rightarrow> ctx \<Rightarrow> string" where
  "ctx_Err rq RequestContext = ''context canceled''"
| "ctx_Err rq (WithDeadline parent d) =
     (case Done_at rq parent of
        Some t \<Rightarrow> if t \<le> d then ctx_Err rq parent else ''context deadline exceeded''
      | None \<Rightarrow> ''context deadline exceeded'')"

text \<open>The bytes of the writes made before a given time since the start.\<close>

definition output_before :: "int \<Rightarrow> (nat \<times> string) list \<Rightarrow> string" where
  "output_before d ws = concat (map snd (filter (\<lambda>w. int (fst w) < d) ws))"

text \<open>
  The process of a program started at the instant \<open>t0\<close> by a command made with
  \<open>exec.CommandContext\<close>, for a context that is done at the instant \<open>dn\<close> (\<open>None\<close>: never)
  with the error text \<open>err\<close>. \<open>Start\<close> returns the error of the lookup if there is one,
  else the context's error when the context is already done, else the error of the
  start if there is one. When the context becomes done before the program ends by
  itself, the process is killed at that instant (\<open>killed_at\<close>): it is ended by the
  signal 9 and only what it wrote before is read. Otherwise the program runs to its
  own end.
\<close>

definition killed_at :: "int option \<Rightarrow> int \<Rightarrow> program \<Rightarrow> int option" where
  "killed_at dn t0 g =
     (case dn of
        Some t \<Rightarrow> if t < t0 + int (run_time g) then Some t else None
      | None \<Rightarrow> None)"

definition under_ctx :: "int option \<Rightarrow> string \<Rightarrow> int \<Rightarrow> program \<Rightarrow> process" where
  "under_ctx dn err t0 g =
     (let kill = killed_at dn t0 g;
          done_at_start = (case dn of Some t \<Rightarrow> t \<le> t0 | None \<Rightarrow> False)
      in \<lparr>stdout_pipe_error = pipe_error_stdout g,
          stderr_pipe_error = pipe_error_stderr g,
          start_error = (case lookup_error g of
                           Some x \<Rightarrow> Some x
                         | None \<Rightarrow> if done_at_start then Some err else spawn_error g),
          stdout_data = output_before
                          (case kill of Some t \<Rightarrow> t - t0 | None \<Rightarrow> int (run_time g) + 1)
                          (stdout_writes g),
          stderr_data = output_before
                          (case kill of Some t \<Rightarrow> t - t0 | None \<Rightarrow> int (run_time g) + 1)
                          (stderr_writes g),
          exit_state = (case kill of Some t \<Rightarrow> Signaled 9 | None \<Rightarrow> end_state g),
          exit_text = (case kill of Some t \<Rightarrow> ''signal: killed'' | None \<Rightarrow> end_text g),
          wait_error = (case kill of Some t \<Rightarrow> None | None \<Rightarrow> io_error g),
          ended_at = (case kill of Some t \<Rightarrow> t | None \<Rightarrow> t0 + int (run_time g))\<rparr>)"

text \<open>
  \<open>cmd.Wait\<close> after a successful start: an \<open>*exec.ExitError\<close> when the process did not
  end with success, else the other error of \<open>Wait\<close> if there is one.
\<close>

definition cmd_Wait :: "process \<Rightarrow> go_error option" where
  "cmd_Wait p =
     (if \<not> Success (exit_state p) then Some (ExitError (exit_state p) (exit_text p))
      else map_option ExecError (wait_error p))"

subsection \<open>The response writer, the log and the recorded effects\<close>

text \<open>
  A JSON object as \<open>encoding/json\<close> writes a struct: its members in the order of the
  fields.
\<close>

datatype jvalue = JString string | JInt int

type_synonym json = "(string \<times> jvalue) list"

text \<open>
  What the handler hands to the response writer, in order: bytes, a JSON document written
  by \<open>json.Encoder.Encode\<close> (the encoding of the object and a newline), or a flush.
\<close>

datatype chunk = Bytes string | Document json | Flushed

datatype zap_field =
    zap_Error string
  | zap_String string string
  | zap_Strings string "string list"

record state =
  header :: "(string \<times> string) list"
  wrote_header :: "(nat \<times> (string \<times> string) list) option"
  written :: "chunk list"
  logged :: "(string \<times> zap_field list) list"
  next_calls :: nat
  resolver_calls :: "string list"
  run_calls :: "string list list"
  created :: "exec_Cmd list"
  started :: "exec_Cmd list"

text \<open>The state of a fresh response: nothing set, nothing written, nothing done.\<close>

definition fresh :: state where
  "fresh = \<lparr>header = [], wrote_header = None, written = [], logged = [],
            next_calls = 0, resolver_calls = [], run_calls = [], created = [],
            started = []\<rparr>"

text \<open>
  The environment of one request. \<open>replacer\<close> is the value of the request's context
  under \<open>caddy.ReplacerCtxKey\<close>, as the function \<open>\<lambda>t. repl.ReplaceAll(t, "")\<close>, or \<open>None\<close>
  when the context holds no replacer. \<open>run\<close> is the method \<open>m.run\<close> of \<open>Cmd\<close>, which is not
  in \<open>middleware.go\<close>: the handler only uses the error it returns. \<open>program_of\<close> is the
  program that a name, an argument vector and a working directory stand for on the
  host. \<open>schedule\<close> is the order in which the scheduler
  lets the two reader goroutines take their steps (\<open>True\<close>: the reader of the standard
  output). \<open>now\<close> is the instant at which the handler runs, \<open>request_done\<close> the instant at
  which the request's context is cancelled.
\<close>

record env =
  replacer :: "(string \<Rightarrow> string) option"
  run :: "string list \<Rightarrow> go_error option"
  program_of :: "string \<Rightarrow> string list \<Rightarrow> string \<Rightarrow> program"
  is_Flusher :: bool
  write_error :: "string option"
  next_result :: "go_error option"
  schedule :: "bool list"
  now :: int
  request_done :: "int option"

text \<open>
  The process of a command: its program, started when the handler runs, under the
  context the command was made with.
\<close>

definition os_process :: "env \<Rightarrow> exec_Cmd \<Rightarrow> process" where
  "os_process e cmd =
     under_ctx (Done_at (request_done e) (cmd_ctx cmd)) (ctx_Err (request_done e) (cmd_ctx cmd))
       (now e) (program_of e (cmd_name cmd) (cmd_argv cmd) (cmd_Dir cmd))"

text \<open>
  \<open>textproto.CanonicalMIMEHeaderKey\<close> on a key of letters, digits and hyphens: the first
  letter and every letter after a hyphen in upper case, the others in lower case.
\<close>

definition upper :: "char \<Rightarrow> char" where
  "upper c = (let n = (of_char c :: nat) in if 97 \<le> n \<and> n \<le> 122 then char_of (n - 32) else c)"

definition lower :: "char \<Rightarrow> char" where
  "lower c = (let n = (of_char c :: nat) in if 65 \<le> n \<and> n \<le> 90 then char_of (n + 32) else c)"

fun canonical :: "bool \<Rightarrow> string \<Rightarrow> string" where
  "canonical up [] = []"
| "canonical up (c # cs) = (if up then upper c else lower c) # canonical (c = CHR ''-'') cs"

definition CanonicalMIMEHeaderKey :: "string \<Rightarrow> string" where
  "CanonicalMIMEHeaderKey key = canonical True key"

text \<open>\<open>w.Header().Set\<close>, \<open>w.Header().Add\<close> and \<open>w.Header().Del\<close>.\<close>

definition Header_Del :: "string \<Rightarrow> state \<Rightarrow> state" where
  "Header_Del key s =
     s\<lparr>header := filter (\<lambda>kv. fst kv \<noteq> CanonicalMIMEHeaderKey key) (header s)\<rparr>"

definition Header_Add :: "string \<Rightarrow> string \<Rightarrow> state \<Rightarrow> state" where
  "Header_Add key v s = s\<lparr>header := header s @ [(CanonicalMIMEHeaderKey key, v)]\<rparr>"

definition Header_Set :: "string \<Rightarrow> string \<Rightarrow> state \<Rightarrow> state" where
  "Header_Set key v s = Header_Add key v (Header_Del key s)"

text \<open>
  \<open>w.WriteHeader\<close>: the first call fixes the status code and the headers that are sent;
  the headers set afterwards are not sent.
\<close>

definition WriteHeader :: "nat \<Rightarrow> state \<Rightarrow> state" where
  "WriteHeader code s =
     s\<lparr>wrote_header :=
         Some (case wrote_header s of None \<Rightarrow> (code, header s) | Some sent \<Rightarrow> sent)\<rparr>"

text \<open>
  \<open>w.Write\<close>: the header is written with status 200 first if it was not written yet. The
  chunk is recorded as handed to the writer; the error is the writer's.
\<close>

definition Write :: "env \<Rightarrow> chunk \<Rightarrow> state \<Rightarrow> go_error option \<times> state" where
  "Write e c s =
     (let s1 = WriteHeader 200 s
      in (map_option WriteError (write_error e), s1\<lparr>written := written s1 @ [c]\<rparr>))"

text \<open>\<open>fmt.Fprintf(w, ...)\<close> and \<open>fmt.Fprintln(w, ...)\<close> where the handler drops the result.\<close>

definition Fprint :: "env \<Rightarrow> string \<Rightarrow> state \<Rightarrow> state" where
  "Fprint e text s = snd (Write e (Bytes text) s)"

text \<open>\<open>flusher.Flush()\<close>.\<close>

definition Flush :: "state \<Rightarrow> state" where
  "Flush s = (let s1 = WriteHeader 200 s in s1\<lparr>written := written s1 @ [Flushed]\<rparr>)"

text \<open>
  How \<open>encoding/json\<close> reads the bytes of a Go string, as \<open>utf8.DecodeRuneInString\<close> does:
  the first byte gives the length of the encoding and the range of the second byte;
  the other continuation bytes are between 0x80 and 0xBF. \<open>utf8_size\<close> is the length of
  the valid encoding at the head of the string, and 0 when there is none.
\<close>

definition utf8_first :: "nat \<Rightarrow> nat \<times> nat \<times> nat" where
  "utf8_first b =
     (if b < 0x80 then (1, 0, 0)
      else if b < 0xC2 then (0, 0, 0)
      else if b < 0xE0 then (2, 0x80, 0xBF)
      else if b = 0xE0 then (3, 0xA0, 0xBF)
      else if b = 0xED then (3, 0x80, 0x9F)
      else if b < 0xF0 then (3, 0x80, 0xBF)
      else if b = 0xF0 then (4, 0x90, 0xBF)
      else if b < 0xF4 then (4, 0x80, 0xBF)
      else if b = 0xF4 then (4, 0x80, 0x8F)
      else (0, 0, 0))"

definition continuation :: "nat \<Rightarrow> nat \<Rightarrow> char \<Rightarrow> bool" where
  "continuation lo hi c = (lo \<le> (of_char c :: nat) \<and> (of_char c :: nat) \<le> hi)"

fun utf8_size :: "string \<Rightarrow> nat" where
  "utf8_size [] = 0"
| "utf8_size (c # cs) =
     (case utf8_first (of_char c) of
        (sz, lo, hi) \<Rightarrow>
          if sz \<le> 1 then sz
          else if length cs < sz - 1 then 0
          else if \<not> continuation lo hi (cs ! 0) then 0
          else if sz = 2 then 2
          else if \<not> continuation 0x80 0xBF (cs ! 1) then 0
          else if sz = 3 then 3
          else if \<not> continuation 0x80 0xBF (cs ! 2) then 0
          else 4)"

text \<open>
  The string that the JSON text written for a Go string stands for: the valid encodings
  are kept, and every byte that is not part of one becomes the replacement character
  U+FFFD (in UTF-8 the bytes EF BF BD). The first argument counts
  the bytes of the current encoding that are still to be copied.
\<close>

fun json_string_from :: "nat \<Rightarrow> string \<Rightarrow> string" where
  "json_string_from k [] = []"
| "json_string_from (Suc k) (c # cs) = c # json_string_from k cs"
| "json_string_from 0 (c # cs) =
     (case utf8_size (c # cs) of
        0 \<Rightarrow> [CHR 0xEF, CHR 0xBF, CHR 0xBD] @ json_string_from 0 cs
      | Suc k \<Rightarrow> c # json_string_from k cs)"

definition json_string :: "string \<Rightarrow> string" where
  "json_string t = json_string_from 0 t"

text \<open>\<open>utf8.ValidString\<close>: the string is a sequence of valid encodings.\<close>

fun valid_from :: "nat \<Rightarrow> string \<Rightarrow> bool" where
  "valid_from k [] = True"
| "valid_from (Suc k) (c # cs) = valid_from k cs"
| "valid_from 0 (c # cs) =
     (case utf8_size (c # cs) of 0 \<Rightarrow> False | Suc k \<Rightarrow> valid_from k cs)"

definition ValidString :: "string \<Rightarrow> bool" where
  "ValidString t = valid_from 0 t"

fun json_value :: "jvalue \<Rightarrow> jvalue" where
  "json_value (JString t) = JString (json_string t)"
| "json_value (JInt n) = JInt n"

text \<open>
  \<open>json.NewEncoder(w).Encode(resp)\<close>: one write of the document, the write's error. The
  document recorded is the one the JSON text written stands for: its strings are the
  struct's strings coerced to valid UTF-8.
\<close>

definition marshal :: "json \<Rightarrow> json" where
  "marshal doc = map (\<lambda>kv. (fst kv, json_value (snd kv))) doc"

definition Encode :: "env \<Rightarrow> json \<Rightarrow> state \<Rightarrow> go_error option \<times> state" where
  "Encode e doc s = Write e (Document (marshal doc)) s"

text \<open>\<open>http.Error(w, msg, code)\<close>.\<close>

definition http_Error :: "env \<Rightarrow> string \<Rightarrow> nat \<Rightarrow> state \<Rightarrow> state" where
  "http_Error e msg code s =
     (let s1 = Header_Del ''Content-Length'' s;
          s2 = Header_Set ''Content-Type'' ''text/plain; charset=utf-8'' s1;
          s3 = Header_Set ''X-Content-Type-Options'' ''nosniff'' s2;
          s4 = WriteHeader code s3
      in Fprint e (msg @ [CHR 0x0A]) s4)"

text \<open>\<open>m.log.Error(msg, fields...)\<close>.\<close>

definition log_Error :: "string \<Rightarrow> zap_field list \<Rightarrow> state \<Rightarrow> state" where
  "log_Error msg fs s = s\<lparr>logged := logged s @ [(msg, fs)]\<rparr>"

text \<open>\<open>next.ServeHTTP(w, r)\<close>: the call is counted, the result is the next handler's.\<close>

definition next_ServeHTTP :: "env \<Rightarrow> state \<Rightarrow> go_error option \<times> state" where
  "next_ServeHTTP e s = (next_result e, s\<lparr>next_calls := next_calls s + 1\<rparr>)"

text \<open>\<open>m.run(argv)\<close>: the call is recorded with its argument vector.\<close>

definition call_run :: "env \<Rightarrow> string list \<Rightarrow> state \<Rightarrow> go_error option \<times> state" where
  "call_run e argv s = (run e argv, s\<lparr>run_calls := run_calls s @ [argv]\<rparr>)"

subsection \<open>Creating, starting and running a command\<close>

definition CommandContext ::
  "ctx \<Rightarrow> string \<Rightarrow> string list \<Rightarrow> string \<Rightarrow> state \<Rightarrow> exec_Cmd \<times> state" where
  "CommandContext c name argv dir s =
     (let cmd = \<lparr>cmd_ctx = c, cmd_name = name, cmd_argv = argv, cmd_Dir = dir\<rparr>
      in (cmd, s\<lparr>created := created s @ [cmd]\<rparr>))"

text \<open>\<open>cmd.Start\<close>: the error of the start, or the command recorded as started.\<close>

definition cmd_Start :: "env \<Rightarrow> exec_Cmd \<Rightarrow> state \<Rightarrow> go_error option \<times> state" where
  "cmd_Start e cmd s =
     (case start_error (os_process e cmd) of
        Some t \<Rightarrow> (Some (ExecError t), s)
      | None \<Rightarrow> (None, s\<lparr>started := started s @ [cmd]\<rparr>))"

text \<open>
  \<open>cmd.Run\<close> with \<open>cmd.Stdout\<close> and \<open>cmd.Stderr\<close> set to two buffers: \<open>Start\<close>, then \<open>Wait\<close>.
  The result is the error and the contents of the two buffers; a program that did not
  start wrote nothing.
\<close>

definition cmd_Run ::
  "env \<Rightarrow> exec_Cmd \<Rightarrow> state \<Rightarrow> (go_error option \<times> string \<times> string) \<times> state" where
  "cmd_Run e cmd s =
     (case cmd_Start e cmd s of
        (Some err, s1) \<Rightarrow> ((Some err, [], []), s1)
      | (None, s1) \<Rightarrow>
          ((cmd_Wait (os_process e cmd), stdout_data (os_process e cmd),
            stderr_data (os_process e cmd)), s1))"

subsection \<open>Reading lines and streaming events\<close>

text \<open>
  \<open>bufio.Scanner\<close> with its default split function \<open>bufio.ScanLines\<close> and its default
  buffer: the tokens \<open>scanner.Text()\<close> returns while \<open>scanner.Scan()\<close> is true. A line
  ends at a line feed, one carriage return before it is dropped, and the last line
  needs no line feed. A line that does not fit in the buffer of \<open>MaxScanTokenSize\<close> bytes
  ends the scan.
\<close>

definition MaxScanTokenSize :: nat where
  "MaxScanTokenSize = 65536"

definition dropCR :: "string \<Rightarrow> string" where
  "dropCR data = (if data \<noteq> [] \<and> last data = CHR 0x0D then butlast data else data)"

fun scan_from :: "string \<Rightarrow> string \<Rightarrow> string list" where
  "scan_from line [] =
     (if line = [] \<or> MaxScanTokenSize \<le> length line then [] else [dropCR line])"
| "scan_from line (c # cs) =
     (if c = CHR 0x0A
      then (if MaxScanTokenSize \<le> length line then [] else dropCR line # scan_from [] cs)
      else scan_from (line @ [c]) cs)"

definition Scan_lines :: "string \<Rightarrow> string list" where
  "Scan_lines data = scan_from [] data"

text \<open>The events of the stream and their frames, as the four \<open>Fprintf\<close> calls write them.\<close>

datatype event = StdoutLine string | StderrLine string | ErrorEvent string | CloseEvent

fun frame :: "event \<Rightarrow> string" where
  "frame (StdoutLine t) = ''event: stdout'' @ [CHR 0x0A] @ ''data: '' @ t @ [CHR 0x0A, CHR 0x0A]"
| "frame (StderrLine t) = ''event: stderr'' @ [CHR 0x0A] @ ''data: '' @ t @ [CHR 0x0A, CHR 0x0A]"
| "frame (ErrorEvent t) = ''event: error'' @ [CHR 0x0A] @ ''data: '' @ t @ [CHR 0x0A, CHR 0x0A]"
| "frame CloseEvent = ''event: close'' @ [CHR 0x0A] @ ''data: Command finished'' @ [CHR 0x0A, CHR 0x0A]"

text \<open>
  One step of the handler on the writer: a chunk of bytes is printed with \<open>Fprintf\<close>,
  \<open>Flushed\<close> is a call of \<open>Flush\<close>.
\<close>

fun perform :: "env \<Rightarrow> chunk \<Rightarrow> state \<Rightarrow> state" where
  "perform e Flushed s = Flush s"
| "perform e c s = snd (Write e c s)"

text \<open>
  The steps of one reader goroutine: for each line of its pipe, the frame of the line is
  printed and the writer is flushed.
\<close>

definition reader :: "(string \<Rightarrow> event) \<Rightarrow> string \<Rightarrow> chunk list" where
  "reader ev data = concat (map (\<lambda>t. [Bytes (frame (ev t)), Flushed]) (Scan_lines data))"

text \<open>
  The two goroutines run concurrently until \<open>wg.Wait()\<close> returns: their steps are merged
  in the order the schedule gives. Each goroutine keeps the order of its own steps. When
  the schedule is used up, the reader of the standard output goes first. (Each call on
  the writer is taken as one step: the handler does not lock the writer.)
\<close>

fun interleave :: "bool list \<Rightarrow> 'a list \<Rightarrow> 'a list \<Rightarrow> 'a list" where
  "interleave sched [] ys = ys"
| "interleave sched xs [] = xs"
| "interleave [] (x # xs) (y # ys) = x # interleave [] xs (y # ys)"
| "interleave (True # sched) (x # xs) (y # ys) = x # interleave sched xs (y # ys)"
| "interleave (False # sched) (x # xs) (y # ys) = y # interleave sched (x # xs) ys"

subsection \<open>The handler\<close>

text \<open>
  The loop that replaces the placeholders: \<open>argv\<close> has the length of \<open>m.Args\<close>, and each
  template is resolved into its own index. Each call of the replacer is recorded.
\<close>

fun resolve_loop ::
  "(string \<Rightarrow> string) \<Rightarrow> (nat \<times> string) list \<Rightarrow> string list \<Rightarrow> state \<Rightarrow> string list \<times> state" where
  "resolve_loop repl [] argv s = (argv, s)"
| "resolve_loop repl ((index, argument) # rest) argv s =
     resolve_loop repl rest (argv[index := repl argument])
       (s\<lparr>resolver_calls := resolver_calls s @ [argument]\<rparr>)"

definition resolve_args ::
  "(string \<Rightarrow> string) \<Rightarrow> string list \<Rightarrow> state \<Rightarrow> string list \<times> state" where
  "resolve_args repl args s =
     resolve_loop repl (enumerate 0 args) (replicate (length args) []) s"

text \<open>
  The scope of the process: the request's context, bounded by the timeout when the
  timeout is positive (\<open>defer cancel()\<close> releases the timer when the handler returns).
\<close>

definition run_ctx :: "Cmd \<Rightarrow> env \<Rightarrow> ctx" where
  "run_ctx m e =
     (if timeout m > 0 then WithTimeout (now e) RequestContext (timeout m)
      else RequestContext)"

text \<open>
  The two response structs with their tags: \<open>status\<close> and \<open>error\<close> carry \<open>omitempty\<close> in the
  struct of the detached run; only \<open>error\<close> does in the struct of the collected run.
\<close>

definition omitempty :: "string \<Rightarrow> string \<Rightarrow> json" where
  "omitempty name v = (if v = [] then [] else [(name, JString v)])"

definition status_json :: "string \<times> string \<Rightarrow> json" where
  "status_json resp =
     (case resp of (Status, Error) \<Rightarrow> omitempty ''status'' Status @ omitempty ''error'' Error)"

definition output_json :: "string \<times> string \<times> string \<times> string \<times> int \<Rightarrow> json" where
  "output_json resp =
     (case resp of (Status, Error, Stdout, Stderr, Code) \<Rightarrow>
        [(''status'', JString Status)] @ omitempty ''error'' Error @
        [(''stdout'', JString Stdout), (''stderr'', JString Stderr), (''exit_code'', JInt Code)])"

text \<open>\<open>runAndCollectOutput\<close>.\<close>

definition runAndCollectOutput ::
  "Cmd \<Rightarrow> env \<Rightarrow> string list \<Rightarrow> state \<Rightarrow> go_error option \<times> state" where
  "runAndCollectOutput m e argv s =
     (if PassThru m then
        (case call_run e argv s of (err, s1) \<Rightarrow>
           next_ServeHTTP e
             (case err of Some x \<Rightarrow> log_Error (Error_text x) [] s1 | None \<Rightarrow> s1))
      else
        (case CommandContext (run_ctx m e) (Command m) argv (Directory m) s of (cmd, s1) \<Rightarrow>
         case cmd_Run e cmd s1 of ((err, stdoutBuf, stderrBuf), s2) \<Rightarrow>
         case (case err of
                 Some x \<Rightarrow>
                   ((''error'', Error_text x,
                     (case x of ExitError st _ \<Rightarrow> ExitCode st | _ \<Rightarrow> - 1)),
                    WriteHeader 500 s2)
               | None \<Rightarrow> ((''success'', [], 0), s2)) of
           ((Status, Error, Code), s3) \<Rightarrow>
             Encode e (output_json (Status, Error, stdoutBuf, stderrBuf, Code))
               (Header_Set ''Content-Type'' ''application/json; charset=utf-8'' s3)))"

text \<open>
  The end of \<open>ServeHTTP\<close>, once the process is started: the two readers run until both
  pipes are drained, \<open>cmd.Wait\<close> gives the result of the process, an error event is
  written when there is an error, and the close event is written.
\<close>

definition stream_events :: "env \<Rightarrow> process \<Rightarrow> state \<Rightarrow> state" where
  "stream_events e p s =
     (let s1 = fold (perform e)
                 (interleave (schedule e)
                    (reader StdoutLine (stdout_data p))
                    (reader StderrLine (stderr_data p))) s;
          s2 = (case cmd_Wait p of
                  Some err \<Rightarrow>
                    Flush (Fprint e (frame (ErrorEvent (Error_text err)))
                      (log_Error ''command finished with error''
                         [zap_Error (Error_text err)] s1))
                | None \<Rightarrow> s1)
      in Flush (Fprint e (frame CloseEvent) s2))"

text \<open>
  The streaming part of \<open>ServeHTTP\<close> (from the comment "The rest of the function is the
  new SSE logic" to the start of the process; \<open>stream_events\<close> is what follows).
\<close>

definition serve_stream ::
  "Cmd \<Rightarrow> env \<Rightarrow> string list \<Rightarrow> state \<Rightarrow> go_error option \<times> state" where
  "serve_stream m e argv s =
     (let s1 = Header_Set ''Content-Type'' ''text/event-stream'' s;
          s2 = Header_Set ''Cache-Control'' ''no-cache'' s1;
          s3 = Header_Set ''Connection'' ''keep-alive'' s2
      in if \<not> is_Flusher e then
           (None, http_Error e ''Streaming unsupported!'' 500
                    (log_Error ''streaming unsupported'' [] s3))
         else
           (case CommandContext (run_ctx m e) (Command m) argv (Directory m) s3 of
              (cmd, s4) \<Rightarrow>
                (case stdout_pipe_error (os_process e cmd) of
                   Some t \<Rightarrow>
                     (Some (ExecError t), log_Error ''getting stdout pipe'' [zap_Error t] s4)
                 | None \<Rightarrow>
                     (case stderr_pipe_error (os_process e cmd) of
                        Some t \<Rightarrow>
                          (Some (ExecError t),
                           log_Error ''getting stderr pipe'' [zap_Error t] s4)
                      | None \<Rightarrow>
                          (case cmd_Start e cmd s4 of
                             (Some err, s5) \<Rightarrow>
                               (Some err,
                                log_Error ''starting command''
                                  [zap_String ''command'' (Command m),
                                   zap_Strings ''args'' argv,
                                   zap_Error (Error_text err)] s5)
                           | (None, s5) \<Rightarrow> (None, stream_events e (os_process e cmd) s5))))))"

text \<open>
  \<open>ServeHTTP\<close>. The type assertion on the replacer panics when the request's context
  holds none; otherwise the handler returns its error and the state it leaves.
\<close>

datatype 'a outcome = Panic | Return (returned: 'a)

definition ServeHTTP :: "Cmd \<Rightarrow> env \<Rightarrow> (go_error option \<times> state) outcome" where
  "ServeHTTP m e =
     (case replacer e of
        None \<Rightarrow> Panic
      | Some repl \<Rightarrow>
          Return
            (case resolve_args repl (Args m) fresh of (argv, s) \<Rightarrow>
             if \<not> Stream m then
               (if Foreground m then runAndCollectOutput m e argv s
                else
                  (case call_run e argv s of (err, s1) \<Rightarrow>
                   if PassThru m then
                     next_ServeHTTP e
                       (case err of Some x \<Rightarrow> log_Error (Error_text x) [] s1 | None \<Rightarrow> s1)
                   else
                     (case (case err of
                              None \<Rightarrow> ((''success'', []), s1)
                            | Some x \<Rightarrow> (([], Error_text x), WriteHeader 500 s1)) of
                        (resp, s2) \<Rightarrow>
                          Encode e (status_json resp)
                            (Header_Add ''content-type'' ''application/json'' s2))))
             else serve_stream m e argv s))"

text \<open>The status code the response was sent with, if the header was written.\<close>

definition status_code :: "state \<Rightarrow> nat option" where
  "status_code s = map_option fst (wrote_header s)"

subsection \<open>Example requests\<close>

text \<open>
  The three scenarios of the specification, two failing processes, a program that runs
  for ten seconds and a program that writes a byte that is not UTF-8, as inputs on which
  the theorems below are instantiated.
\<close>

definition example_replacer :: "string \<Rightarrow> string" where
  "example_replacer t = (if t = ''{http.request.uri.query.msg}'' then ''hello'' else t)"

definition echo_Cmd :: Cmd where
  "echo_Cmd = \<lparr>Command = ''echo'', Args = [''{http.request.uri.query.msg}''], Directory = [],
                Foreground = True, PassThru = False, Stream = False, timeout = 0\<rparr>"

definition false_Cmd :: Cmd where
  "false_Cmd = \<lparr>Command = ''false'', Args = [], Directory = [],
                 Foreground = False, PassThru = False, Stream = False, timeout = 0\<rparr>"

definition sh_Cmd :: Cmd where
  "sh_Cmd = \<lparr>Command = ''sh'', Args = [''-c'', ''echo out; echo err 1>&2''], Directory = [],
              Foreground = False, PassThru = False, Stream = True, timeout = 5000000000\<rparr>"

definition echo_process :: process where
  "echo_process = \<lparr>stdout_pipe_error = None, stderr_pipe_error = None, start_error = None,
                    stdout_data = ''hello'' @ [CHR 0x0A], stderr_data = [],
                    exit_state = Exited 0, exit_text = ''exit status 0'', wait_error = None,
                    ended_at = 1000\<rparr>"

definition sh_process :: process where
  "sh_process = echo_process\<lparr>stdout_data := ''out'' @ [CHR 0x0A],
                               stderr_data := ''err'' @ [CHR 0x0A]\<rparr>"

definition exit3_process :: process where
  "exit3_process = echo_process\<lparr>stdout_data := ''partial'' @ [CHR 0x0A],
                                  stderr_data := ''warn'' @ [CHR 0x0A],
                                  exit_state := Exited 3, exit_text := ''exit status 3''\<rparr>"

definition unstartable_process :: process where
  "unstartable_process =
     echo_process\<lparr>start_error := Some ''fork/exec /bin/nope: no such file or directory'',
                    stdout_data := [], stderr_data := []\<rparr>"

text \<open>
  A program that behaves as a given process when nothing interrupts it: it writes its
  output at once and ends at once.
\<close>

definition program_from :: "process \<Rightarrow> program" where
  "program_from p =
     \<lparr>pipe_error_stdout = stdout_pipe_error p, pipe_error_stderr = stderr_pipe_error p,
      lookup_error = None, spawn_error = start_error p, stdout_writes = [(0, stdout_data p)],
      stderr_writes = [(0, stderr_data p)], run_time = 0, end_state = exit_state p,
      end_text = exit_text p, io_error = wait_error p\<rparr>"

text \<open>
  The handler runs at the instant 1000, and the request is cancelled at the instant 2000.
\<close>

definition example_env :: "process \<Rightarrow> env" where
  "example_env p = \<lparr>replacer = Some example_replacer, run = (\<lambda>argv. None),
                     program_of = (\<lambda>name argv dir. program_from p), is_Flusher = True,
                     write_error = None, next_result = None, schedule = [False, True],
                     now = 1000, request_done = Some 2000\<rparr>"

definition sleep_program :: program where
  "sleep_program =
     \<lparr>pipe_error_stdout = None, pipe_error_stderr = None, lookup_error = None,
      spawn_error = None,
      stdout_writes = [(0, ''begin'' @ [CHR 0x0A]), (9000000000, ''end'' @ [CHR 0x0A])],
      stderr_writes = [], run_time = 10000000000, end_state = Exited 0,
      end_text = ''exit status 0'', io_error = None\<rparr>"

definition sleep_env :: env where
  "sleep_env = (example_env echo_process)\<lparr>program_of := (\<lambda>name argv dir. sleep_program)\<rparr>"

definition binary_process :: process where
  "binary_process = echo_process\<lparr>stdout_data := [CHR 0xFF, CHR 0x0A]\<rparr>"

definition failing_run_env :: env where
  "failing_run_env =
     (example_env echo_process)\<lparr>run := (\<lambda>argv. Some (ExitError (Exited 1) ''exit status 1''))\<rparr>"

section \<open>Auxiliary facts\<close>

subsection \<open>Header keys, argument resolution, interleavings\<close>

lemma utf8_size_ascii: "(of_char c :: nat) < 128 \<Longrightarrow> utf8_size (c # cs) = 1"
  by (simp add: utf8_first_def)

lemma json_string_from_ascii:
  "list_all (\<lambda>c. (of_char c :: nat) < 128) t \<Longrightarrow> json_string_from 0 t = t"
  by (induction t) (simp_all add: utf8_size_ascii del: utf8_size.simps)

lemma json_string_ascii:
  "list_all (\<lambda>c. (of_char c :: nat) < 128) t \<Longrightarrow> json_string t = t"
  by (simp add: json_string_def json_string_from_ascii)

lemma valid_from_ascii:
  "list_all (\<lambda>c. (of_char c :: nat) < 128) t \<Longrightarrow> valid_from 0 t"
  by (induction t) (simp_all add: utf8_size_ascii del: utf8_size.simps)

lemma ValidString_ascii:
  "list_all (\<lambda>c. (of_char c :: nat) < 128) t \<Longrightarrow> ValidString t"
  by (simp add: ValidString_def valid_from_ascii)

lemma json_string_literals:
  "json_string ''success'' = ''success''"
  "json_string ''error'' = ''error''"
  "json_string ''signal: killed'' = ''signal: killed''"
  "json_string [] = []"
  by (simp_all add: json_string_ascii)

lemma json_string_from_empty: "(json_string_from k t = []) = (t = [])"
proof (cases t)
  case Nil
  then show ?thesis by simp
next
  case (Cons c cs)
  then show ?thesis
    by (cases k; cases "utf8_size (c # cs)") (simp_all del: utf8_size.simps)
qed

lemma json_string_empty: "(json_string t = []) = (t = [])"
  by (simp add: json_string_def json_string_from_empty)

lemma valid_json_string_from: "valid_from k t \<Longrightarrow> json_string_from k t = t"
proof (induction k t rule: json_string_from.induct)
  case (3 c cs)
  then show ?case
    by (cases "utf8_size (c # cs)") (simp_all del: utf8_size.simps)
qed simp_all

lemma valid_json_string: "ValidString t \<Longrightarrow> json_string t = t"
  by (simp add: ValidString_def json_string_def valid_json_string_from)

lemma marshal_status_json:
  "marshal (status_json (st, er)) = status_json (json_string st, json_string er)"
  by (simp add: marshal_def status_json_def omitempty_def json_string_empty)

lemma marshal_output_json:
  "marshal (output_json (st, er, out, err, code)) =
     output_json (json_string st, json_string er, json_string out, json_string err, code)"
  by (simp add: marshal_def output_json_def omitempty_def json_string_empty)

lemma canonical_keys:
  "CanonicalMIMEHeaderKey ''content-type'' = ''Content-Type''"
  "CanonicalMIMEHeaderKey ''Content-Type'' = ''Content-Type''"
  "CanonicalMIMEHeaderKey ''Cache-Control'' = ''Cache-Control''"
  "CanonicalMIMEHeaderKey ''Connection'' = ''Connection''"
  "CanonicalMIMEHeaderKey ''Content-Length'' = ''Content-Length''"
  "CanonicalMIMEHeaderKey ''X-Content-Type-Options'' = ''X-Content-Type-Options''"
  by code_simp+

lemma resolve_loop_enumerate:
  "n + length args \<le> length argv \<Longrightarrow>
   resolve_loop repl (enumerate n args) argv s =
     (take n argv @ map repl args @ drop (n + length args) argv,
      s\<lparr>resolver_calls := resolver_calls s @ args\<rparr>)"
proof (induction args arbitrary: n argv s)
  case Nil
  then show ?case by simp
next
  case (Cons a args)
  have "take (Suc n) (argv[n := repl a]) = take n argv @ [repl a]"
    using Cons.prems by (simp add: take_Suc_conv_app_nth)
  then show ?case using Cons.prems Cons.IH [of "Suc n" "argv[n := repl a]"]
    by simp
qed

lemma resolve_args_eq:
  "resolve_args repl args s = (map repl args, s\<lparr>resolver_calls := resolver_calls s @ args\<rparr>)"
  by (simp add: resolve_args_def resolve_loop_enumerate)

lemma interleave_shuffles: "interleave sched xs ys \<in> shuffles xs ys"
  by (induction sched xs ys rule: interleave.induct) auto

lemma map_shuffles: "map f ` shuffles xs ys = shuffles (map f xs) (map f ys)"
proof (induction xs ys rule: shuffles.induct)
  case (3 x xs y ys)
  have "map f ` shuffles (x # xs) (y # ys) =
        (#) (f x) ` (map f ` shuffles xs (y # ys)) \<union> (#) (f y) ` (map f ` shuffles (x # xs) ys)"
    by (simp add: image_Un image_image)
  then show ?case using 3 by simp
qed simp_all

lemma perform_eq: "perform e c s = (WriteHeader 200 s)\<lparr>written := written (WriteHeader 200 s) @ [c]\<rparr>"
  by (cases c) (simp_all add: Write_def Flush_def Let_def)


lemma fold_perform:
  "fold (perform e) cs s =
     (if cs = [] then s else (WriteHeader 200 s)\<lparr>written := written s @ cs\<rparr>)"
proof (induction cs arbitrary: s)
  case Nil
  then show ?case by simp
next
  case (Cons c cs)
  let ?s1 = "perform e c s"
  have s1: "?s1 = (WriteHeader 200 s)\<lparr>written := written s @ [c]\<rparr>"
    by (simp add: perform_eq [of e c s] WriteHeader_def)
  have w: "WriteHeader 200 ?s1 = ?s1"
    unfolding s1 by (simp add: WriteHeader_def)
  have "fold (perform e) (c # cs) s = fold (perform e) cs ?s1"
    by simp
  also have "\<dots> = (if cs = [] then ?s1 else (WriteHeader 200 ?s1)\<lparr>written := written ?s1 @ cs\<rparr>)"
    by (rule Cons.IH)
  also have "\<dots> = (WriteHeader 200 s)\<lparr>written := written s @ c # cs\<rparr>"
    unfolding w unfolding s1 by simp
  finally show ?case by simp
qed

lemma stream_events_written:
  "written (stream_events e p s) =
     written s @
     interleave (schedule e) (reader StdoutLine (stdout_data p)) (reader StderrLine (stderr_data p)) @
     (case cmd_Wait p of None \<Rightarrow> []
      | Some err \<Rightarrow> [Bytes (frame (ErrorEvent (Error_text err))), Flushed]) @
     [Bytes (frame CloseEvent), Flushed]"
  by (simp add: stream_events_def fold_perform Let_def Flush_def Fprint_def Write_def
      WriteHeader_def log_Error_def del: frame.simps split: option.split)

lemma stream_events_other:
  "next_calls (stream_events e p s) = next_calls s"
  "run_calls (stream_events e p s) = run_calls s"
  "created (stream_events e p s) = created s"
  "started (stream_events e p s) = started s"
  "resolver_calls (stream_events e p s) = resolver_calls s"
  "header (stream_events e p s) = header s"
  by (simp_all add: stream_events_def fold_perform Let_def Flush_def Fprint_def Write_def
      WriteHeader_def log_Error_def del: frame.simps split: option.split)

lemma filter_steps:
  "filter (\<lambda>c. c \<noteq> Flushed) (concat (map (\<lambda>t. [Bytes (g t), Flushed]) ts)) =
     map (\<lambda>t. Bytes (g t)) ts"
  by (induction ts) simp_all

lemma reader_data:
  "filter (\<lambda>c. c \<noteq> Flushed) (reader ev data) =
     map (\<lambda>t. Bytes (frame (ev t))) (Scan_lines data)"
  unfolding reader_def by (rule filter_steps)



lemmas writer_defs = Encode_def Write_def WriteHeader_def Header_Add_def Header_Set_def
  Header_Del_def Fprint_def Flush_def log_Error_def canonical_keys
  marshal_status_json marshal_output_json json_string_literals

lemma ServeHTTP_stream:
  assumes "replacer e = Some repl" and "Stream m" and "is_Flusher e"
    and "cmd = \<lparr>cmd_ctx = run_ctx m e, cmd_name = Command m, cmd_argv = map repl (Args m),
                 cmd_Dir = Directory m\<rparr>"
    and "s0 = fresh\<lparr>header := [(''Content-Type'', ''text/event-stream''),
                                 (''Cache-Control'', ''no-cache''),
                                 (''Connection'', ''keep-alive'')],
                     resolver_calls := Args m, created := [cmd]\<rparr>"
  shows "ServeHTTP m e =
    Return
     (case stdout_pipe_error (os_process e cmd) of
        Some t \<Rightarrow> (Some (ExecError t), s0\<lparr>logged := [(''getting stdout pipe'', [zap_Error t])]\<rparr>)
      | None \<Rightarrow>
         (case stderr_pipe_error (os_process e cmd) of
            Some t \<Rightarrow> (Some (ExecError t), s0\<lparr>logged := [(''getting stderr pipe'', [zap_Error t])]\<rparr>)
          | None \<Rightarrow>
             (case start_error (os_process e cmd) of
                Some t \<Rightarrow>
                  (Some (ExecError t),
                   s0\<lparr>logged := [(''starting command'',
                                    [zap_String ''command'' (Command m),
                                     zap_Strings ''args'' (map repl (Args m)),
                                     zap_Error t])]\<rparr>)
              | None \<Rightarrow> (None, stream_events e (os_process e cmd) (s0\<lparr>started := [cmd]\<rparr>)))))"
proof -
  let ?p = "os_process e cmd"
  let ?s = "fresh\<lparr>resolver_calls := Args m\<rparr>"
  have start: "ServeHTTP m e = Return (serve_stream m e (map repl (Args m)) ?s)"
    using assms(1,2) by (simp add: ServeHTTP_def resolve_args_eq fresh_def)
  note defs = serve_stream_def writer_defs CommandContext_def cmd_Start_def Let_def
    assms(4,5) fresh_def
  show ?thesis
  proof (cases "stdout_pipe_error ?p")
    case (Some t)
    then show ?thesis
      unfolding start using assms(3) by (simp add: defs)
  next
    case out: None
    show ?thesis
    proof (cases "stderr_pipe_error ?p")
      case (Some t)
      with out show ?thesis
        unfolding start using assms(3) by (simp add: defs)
    next
      case err: None
      show ?thesis
      proof (cases "start_error ?p")
        case (Some t)
        with out err show ?thesis
          unfolding start using assms(3) by (simp add: defs)
      next
        case None
        with out err show ?thesis
          unfolding start using assms(3) by (simp add: defs)
      qed
    qed
  qed
qed

lemma ServeHTTP_collected:
  assumes "replacer e = Some repl" and "\<not> Stream m" and "Foreground m" and "\<not> PassThru m"
    and "cmd = \<lparr>cmd_ctx = run_ctx m e, cmd_name = Command m, cmd_argv = map repl (Args m),
                 cmd_Dir = Directory m\<rparr>"
    and "s0 = fresh\<lparr>header := [(''Content-Type'', ''application/json; charset=utf-8'')],
                     resolver_calls := Args m, created := [cmd]\<rparr>"
  shows "ServeHTTP m e =
    Return
     (map_option WriteError (write_error e),
      case start_error (os_process e cmd) of
        Some t \<Rightarrow>
          s0\<lparr>wrote_header := Some (500, []),
             written := [Document (output_json (''error'', json_string t, [], [], - 1))]\<rparr>
      | None \<Rightarrow>
         (case cmd_Wait (os_process e cmd) of
            Some x \<Rightarrow>
              s0\<lparr>wrote_header := Some (500, []),
                 written := [Document (output_json
                    (''error'', json_string (Error_text x),
                     json_string (stdout_data (os_process e cmd)),
                     json_string (stderr_data (os_process e cmd)),
                     (case x of ExitError st _ \<Rightarrow> ExitCode st | _ \<Rightarrow> - 1)))],
                 started := [cmd]\<rparr>
          | None \<Rightarrow>
              s0\<lparr>wrote_header := Some (200, [(''Content-Type'', ''application/json; charset=utf-8'')]),
                 written := [Document (output_json
                    (''success'', [], json_string (stdout_data (os_process e cmd)),
                     json_string (stderr_data (os_process e cmd)), 0))],
                 started := [cmd]\<rparr>))"
proof -
  let ?p = "os_process e cmd"
  have start: "ServeHTTP m e =
      Return (runAndCollectOutput m e (map repl (Args m)) (fresh\<lparr>resolver_calls := Args m\<rparr>))"
    using assms(1-3) by (simp add: ServeHTTP_def resolve_args_eq fresh_def)
  show ?thesis
  proof (cases "start_error ?p")
    case (Some t)
    then show ?thesis
      unfolding start runAndCollectOutput_def using assms(4)
      by (simp add: Let_def CommandContext_def cmd_Start_def cmd_Run_def writer_defs assms(5,6) fresh_def)
  next
    case None
    show ?thesis
    proof (cases "cmd_Wait ?p")
      case None
      with \<open>start_error ?p = None\<close> show ?thesis
        unfolding start runAndCollectOutput_def using assms(4)
        by (simp add: Let_def CommandContext_def cmd_Start_def cmd_Run_def writer_defs assms(5,6) fresh_def)
    next
      case (Some x)
      with \<open>start_error ?p = None\<close> show ?thesis
        unfolding start runAndCollectOutput_def using assms(4)
        by (simp add: Let_def CommandContext_def cmd_Start_def cmd_Run_def writer_defs assms(5,6) fresh_def)
    qed
  qed
qed

lemma ServeHTTP_run:
  assumes "replacer e = Some repl" and "\<not> Stream m" and "\<not> Foreground m \<or> PassThru m"
    and "s0 = fresh\<lparr>resolver_calls := Args m, run_calls := [map repl (Args m)]\<rparr>"
  shows "ServeHTTP m e =
    Return
     (if PassThru m then
        (next_result e,
         s0\<lparr>logged := (case run e (map repl (Args m)) of
                          None \<Rightarrow> [] | Some x \<Rightarrow> [(Error_text x, [])]),
             next_calls := 1\<rparr>)
      else
        (map_option WriteError (write_error e),
         s0\<lparr>header := [(''Content-Type'', ''application/json'')],
             wrote_header :=
               Some (case run e (map repl (Args m)) of
                       None \<Rightarrow> (200, [(''Content-Type'', ''application/json'')])
                     | Some x \<Rightarrow> (500, [])),
             written :=
               [Document (status_json
                  (case run e (map repl (Args m)) of
                     None \<Rightarrow> (''success'', [])
                   | Some x \<Rightarrow> ([], json_string (Error_text x))))]\<rparr>))"
proof (cases "run e (map repl (Args m))")
  case None
  with assms(1-3) show ?thesis
    by (cases "PassThru m"; cases "Foreground m")
       (simp_all add: ServeHTTP_def resolve_args_eq call_run_def runAndCollectOutput_def
          next_ServeHTTP_def writer_defs fresh_def assms(4))
next
  case (Some x)
  with assms(1-3) show ?thesis
    by (cases "PassThru m"; cases "Foreground m")
       (simp_all add: ServeHTTP_def resolve_args_eq call_run_def runAndCollectOutput_def
          next_ServeHTTP_def writer_defs fresh_def assms(4))
qed

lemma ServeHTTP_no_flusher:
  assumes "replacer e = Some repl" and "Stream m" and "\<not> is_Flusher e"
  shows "ServeHTTP m e =
    Return
     (None,
      fresh\<lparr>header := [(''Cache-Control'', ''no-cache''), (''Connection'', ''keep-alive''),
                         (''Content-Type'', ''text/plain; charset=utf-8''),
                         (''X-Content-Type-Options'', ''nosniff'')],
             wrote_header :=
               Some (500, [(''Cache-Control'', ''no-cache''), (''Connection'', ''keep-alive''),
                           (''Content-Type'', ''text/plain; charset=utf-8''),
                           (''X-Content-Type-Options'', ''nosniff'')]),
             written := [Bytes (''Streaming unsupported!'' @ [CHR 0x0A])],
             logged := [(''streaming unsupported'', [])],
             resolver_calls := Args m\<rparr>)"
  using assms
  by (simp add: ServeHTTP_def resolve_args_eq serve_stream_def http_Error_def writer_defs
      fresh_def Let_def)

lemma set_interleave: "set (interleave sched xs ys) = set xs \<union> set ys"
  using interleave_shuffles [of sched xs ys] by (rule set_shuffles)

lemma set_reader: "set (reader ev data) \<subseteq> insert Flushed (range (\<lambda>ev. Bytes (frame ev)))"
  unfolding reader_def by (auto simp del: frame.simps)

lemma stream_summary:
  assumes "replacer e = Some repl" and "Stream m" and "is_Flusher e"
    and "cmd = \<lparr>cmd_ctx = run_ctx m e, cmd_name = Command m, cmd_argv = map repl (Args m),
                 cmd_Dir = Directory m\<rparr>"
    and "p = os_process e cmd"
  shows "\<exists>s. ServeHTTP m e =
           Return
            (case stdout_pipe_error p of
               Some t \<Rightarrow> Some (ExecError t)
             | None \<Rightarrow>
                (case stderr_pipe_error p of
                   Some t \<Rightarrow> Some (ExecError t)
                 | None \<Rightarrow> map_option ExecError (start_error p)), s) \<and>
           header s = [(''Content-Type'', ''text/event-stream''),
                       (''Cache-Control'', ''no-cache''), (''Connection'', ''keep-alive'')] \<and>
           created s = [cmd] \<and> next_calls s = 0 \<and> run_calls s = [] \<and>
           resolver_calls s = Args m \<and>
           set (written s) \<subseteq> insert Flushed (range (\<lambda>ev. Bytes (frame ev)))"
proof -
  note nf = ServeHTTP_stream [OF assms(1-4) refl, folded assms(5)]
  have frames: "set (written (stream_events e p s)) \<subseteq>
      insert Flushed (range (\<lambda>ev. Bytes (frame ev)))" if "written s = []" for s
    using set_reader [of StdoutLine "stdout_data p"] set_reader [of StderrLine "stderr_data p"]
    by (cases "cmd_Wait p")
       (auto simp add: stream_events_written set_interleave that simp del: frame.simps)
  show ?thesis
  proof (cases "stdout_pipe_error p")
    case (Some t)
    then show ?thesis
      unfolding nf by (simp add: fresh_def)
  next
    case out: None
    show ?thesis
    proof (cases "stderr_pipe_error p")
      case (Some t)
      with out show ?thesis
        unfolding nf by (simp add: fresh_def)
    next
      case err: None
      show ?thesis
      proof (cases "start_error p")
        case (Some t)
        with out err show ?thesis
          unfolding nf by (simp add: fresh_def)
      next
        case None
        with out err show ?thesis
          unfolding nf
          by (simp add: stream_events_other frames fresh_def del: frame.simps)
      qed
    qed
  qed
qed

lemma stream_events_wrote_header:
  "wrote_header (stream_events e p s) =
     Some (case wrote_header s of None \<Rightarrow> (200, header s) | Some sent \<Rightarrow> sent)"
  by (simp add: stream_events_def fold_perform Let_def Flush_def Fprint_def Write_def
      WriteHeader_def log_Error_def del: frame.simps split: option.split)

lemma stream_events_frames:
  assumes "written s = []"
  shows "\<exists>lines. lines \<in> shuffles (map StdoutLine (Scan_lines (stdout_data p)))
                                   (map StderrLine (Scan_lines (stderr_data p))) \<and>
           filter (\<lambda>c. c \<noteq> Flushed) (written (stream_events e p s)) =
             map (\<lambda>ev. Bytes (frame ev))
               (lines @
                (case cmd_Wait p of None \<Rightarrow> [] | Some err \<Rightarrow> [ErrorEvent (Error_text err)]) @
                [CloseEvent])"
proof -
  let ?g = "\<lambda>ev. Bytes (frame ev)"
  let ?outs = "map StdoutLine (Scan_lines (stdout_data p))"
  let ?errs = "map StderrLine (Scan_lines (stderr_data p))"
  let ?merged = "interleave (schedule e) (reader StdoutLine (stdout_data p))
                   (reader StderrLine (stderr_data p))"
  have "filter (\<lambda>c. c \<noteq> Flushed) ?merged \<in>
          filter (\<lambda>c. c \<noteq> Flushed) `
            shuffles (reader StdoutLine (stdout_data p)) (reader StderrLine (stderr_data p))"
    by (rule imageI) (rule interleave_shuffles)
  also have "\<dots> = shuffles (map ?g ?outs) (map ?g ?errs)"
    by (simp add: filter_shuffles reader_data comp_def del: frame.simps)
  also have "\<dots> = map ?g ` shuffles ?outs ?errs"
    by (rule map_shuffles [symmetric])
  finally obtain lines where lines: "lines \<in> shuffles ?outs ?errs"
    and merged: "filter (\<lambda>c. c \<noteq> Flushed) ?merged = map ?g lines"
    by auto
  have "filter (\<lambda>c. c \<noteq> Flushed) (written (stream_events e p s)) =
          map ?g (lines @
            (case cmd_Wait p of None \<Rightarrow> [] | Some err \<Rightarrow> [ErrorEvent (Error_text err)]) @
            [CloseEvent])"
    by (simp add: stream_events_written merged assms del: frame.simps split: option.split)
  with lines show ?thesis
    by (intro exI conjI)
qed

lemma stream_events_last: "last (written (stream_events e p s)) = Flushed"
  by (simp add: stream_events_written del: frame.simps)





lemmas example_defs = example_env_def example_replacer_def echo_Cmd_def false_Cmd_def
  sh_Cmd_def echo_process_def sh_process_def exit3_process_def unstartable_process_def
  failing_run_env_def
  os_process_def under_ctx_def killed_at_def program_from_def output_before_def Let_def
  run_ctx_def WithTimeout_def marshal_def json_string_ascii ValidString_ascii
  sleep_env_def sleep_program_def binary_process_def

subsection \<open>Scenarios A and C of the specification\<close>

lemma scenario_A:
  "ServeHTTP echo_Cmd (example_env echo_process) =
     Return
      (None,
       fresh\<lparr>header := [(''Content-Type'', ''application/json; charset=utf-8'')],
              wrote_header := Some (200, [(''Content-Type'', ''application/json; charset=utf-8'')]),
              written := [Document [(''status'', JString ''success''),
                                    (''stdout'', JString (''hello'' @ [CHR 0x0A])),
                                    (''stderr'', JString []),
                                    (''exit_code'', JInt 0)]],
              resolver_calls := [''{http.request.uri.query.msg}''],
              created := [\<lparr>cmd_ctx = RequestContext, cmd_name = ''echo'',
                            cmd_argv = [''hello''], cmd_Dir = []\<rparr>],
              started := [\<lparr>cmd_ctx = RequestContext, cmd_name = ''echo'',
                            cmd_argv = [''hello''], cmd_Dir = []\<rparr>]\<rparr>)"
  by (simp add: ServeHTTP_def resolve_args_eq runAndCollectOutput_def CommandContext_def
      cmd_Run_def cmd_Start_def cmd_Wait_def run_ctx_def writer_defs output_json_def
      omitempty_def marshal_def json_string_ascii Let_def fresh_def example_defs)

lemma scenario_C:
  "ServeHTTP sh_Cmd (example_env sh_process) =
     Return
      (None,
       fresh\<lparr>header := [(''Content-Type'', ''text/event-stream''),
                          (''Cache-Control'', ''no-cache''), (''Connection'', ''keep-alive'')],
              wrote_header := Some (200, [(''Content-Type'', ''text/event-stream''),
                          (''Cache-Control'', ''no-cache''), (''Connection'', ''keep-alive'')]),
              written := [Bytes (frame (StderrLine ''err'')),
                          Bytes (frame (StdoutLine ''out'')), Flushed, Flushed,
                          Bytes (frame CloseEvent), Flushed],
              resolver_calls := [''-c'', ''echo out; echo err 1>&2''],
              created := [\<lparr>cmd_ctx = WithDeadline RequestContext 5000001000, cmd_name = ''sh'',
                            cmd_argv = [''-c'', ''echo out; echo err 1>&2''], cmd_Dir = []\<rparr>],
              started := [\<lparr>cmd_ctx = WithDeadline RequestContext 5000001000, cmd_name = ''sh'',
                            cmd_argv = [''-c'', ''echo out; echo err 1>&2''], cmd_Dir = []\<rparr>]\<rparr>)"
  by (simp add: ServeHTTP_def resolve_args_eq serve_stream_def stream_events_def reader_def
      Scan_lines_def MaxScanTokenSize_def dropCR_def CommandContext_def
      cmd_Start_def cmd_Wait_def run_ctx_def WithTimeout_def writer_defs
      Let_def fresh_def example_defs)

section \<open>The claims\<close>

subsection \<open>C1: the event sequence of a streamed run\<close>

text \<open>
  C1 says that every streamed run delivers stdout and stderr events in some interleaving,
  then at most one error event, then exactly one close event, also when the process
  could not be started. The handler does so once the process is started: for a streamed
  run whose writer can flush, whose two pipes were created and whose process started,
  the frames written are an interleaving of the stdout lines and the stderr lines (each
  stream in its own order), followed by one error event exactly when \<open>cmd.Wait\<close> returns
  an error (the process did not end with success, or \<open>Wait\<close> reports another error),
  followed by the close event, which is the last frame.
\<close>

theorem stream_event_sequence:
  assumes "replacer e = Some repl" and "Stream m" and "is_Flusher e"
    and "p = os_process e \<lparr>cmd_ctx = run_ctx m e, cmd_name = Command m,
                             cmd_argv = map repl (Args m), cmd_Dir = Directory m\<rparr>"
    and "stdout_pipe_error p = None" and "stderr_pipe_error p = None"
    and "start_error p = None"
  shows "\<exists>s lines.
           ServeHTTP m e = Return (None, s) \<and>
           lines \<in> shuffles (map StdoutLine (Scan_lines (stdout_data p)))
                            (map StderrLine (Scan_lines (stderr_data p))) \<and>
           filter (\<lambda>c. c \<noteq> Flushed) (written s) =
             map (\<lambda>ev. Bytes (frame ev))
               (lines @
                (case cmd_Wait p of None \<Rightarrow> [] | Some err \<Rightarrow> [ErrorEvent (Error_text err)]) @
                [CloseEvent]) \<and>
           (cmd_Wait p = None) = (Success (exit_state p) \<and> wait_error p = None)"
proof -
  define cmd where "cmd = \<lparr>cmd_ctx = run_ctx m e, cmd_name = Command m,
                             cmd_argv = map repl (Args m), cmd_Dir = Directory m\<rparr>"
  define s0 where "s0 = fresh\<lparr>header := [(''Content-Type'', ''text/event-stream''),
                                 (''Cache-Control'', ''no-cache''),
                                 (''Connection'', ''keep-alive'')],
                     resolver_calls := Args m, created := [cmd]\<rparr>"
  let ?g = "\<lambda>ev. Bytes (frame ev)"
  let ?outs = "map StdoutLine (Scan_lines (stdout_data p))"
  let ?errs = "map StderrLine (Scan_lines (stderr_data p))"
  let ?merged = "interleave (schedule e) (reader StdoutLine (stdout_data p))
                   (reader StderrLine (stderr_data p))"
  have p: "p = os_process e cmd"
    by (simp add: assms(4) cmd_def)
  have ret: "ServeHTTP m e = Return (None, stream_events e p (s0\<lparr>started := [cmd]\<rparr>))"
    using ServeHTTP_stream [OF assms(1-3) cmd_def s0_def] assms(5-7) by (simp add: p)
  have "filter (\<lambda>c. c \<noteq> Flushed) ?merged \<in>
          filter (\<lambda>c. c \<noteq> Flushed) `
            shuffles (reader StdoutLine (stdout_data p)) (reader StderrLine (stderr_data p))"
    by (rule imageI) (rule interleave_shuffles)
  also have "\<dots> = shuffles (map ?g ?outs) (map ?g ?errs)"
    by (simp add: filter_shuffles reader_data comp_def del: frame.simps)
  also have "\<dots> = map ?g ` shuffles ?outs ?errs"
    by (rule map_shuffles [symmetric])
  finally obtain lines where lines: "lines \<in> shuffles ?outs ?errs"
    and merged: "filter (\<lambda>c. c \<noteq> Flushed) ?merged = map ?g lines"
    by auto
  have wr: "filter (\<lambda>c. c \<noteq> Flushed) (written (stream_events e p (s0\<lparr>started := [cmd]\<rparr>))) =
          map ?g (lines @
            (case cmd_Wait p of None \<Rightarrow> [] | Some err \<Rightarrow> [ErrorEvent (Error_text err)]) @
            [CloseEvent])"
    by (simp add: stream_events_written merged s0_def fresh_def del: frame.simps
        split: option.split)
  have iff: "(cmd_Wait p = None) = (Success (exit_state p) \<and> wait_error p = None)"
    by (simp add: cmd_Wait_def)
  show ?thesis
  proof (intro exI conjI)
    show "ServeHTTP m e = Return (None, stream_events e p (s0\<lparr>started := [cmd]\<rparr>))"
      by (rule ret)
    show "lines \<in> shuffles ?outs ?errs"
      by (rule lines)
    show "filter (\<lambda>c. c \<noteq> Flushed) (written (stream_events e p (s0\<lparr>started := [cmd]\<rparr>))) =
          map ?g (lines @
            (case cmd_Wait p of None \<Rightarrow> [] | Some err \<Rightarrow> [ErrorEvent (Error_text err)]) @
            [CloseEvent])"
      by (rule wr)
    show "(cmd_Wait p = None) = (Success (exit_state p) \<and> wait_error p = None)"
      by (rule iff)
  qed
qed

theorem stream_event_sequence_witness:
  "replacer (example_env sh_process) = Some example_replacer \<and> Stream sh_Cmd \<and>
   is_Flusher (example_env sh_process) \<and>
   stdout_pipe_error sh_process = None \<and> stderr_pipe_error sh_process = None \<and>
   start_error sh_process = None \<and>
   (\<exists>s lines.
      ServeHTTP sh_Cmd (example_env sh_process) = Return (None, s) \<and>
      lines \<in> shuffles [StdoutLine ''out''] [StderrLine ''err''] \<and>
      filter (\<lambda>c. c \<noteq> Flushed) (written s) = map (\<lambda>ev. Bytes (frame ev)) (lines @ [CloseEvent]))"
  using stream_event_sequence [of "example_env sh_process" example_replacer sh_Cmd sh_process]
  by (simp add: example_defs Scan_lines_def MaxScanTokenSize_def dropCR_def cmd_Wait_def
      del: frame.simps shuffles.simps)

text \<open>
  C1 as stated fails when the process cannot be started: the handler logs the start
  error and returns it, and nothing is written, so no close event is delivered.
\<close>

theorem stream_start_failure_counterexample:
  "Stream sh_Cmd \<and>
   returned (ServeHTTP sh_Cmd (example_env unstartable_process)) =
     (Some (ExecError ''fork/exec /bin/nope: no such file or directory''),
      fresh\<lparr>header := [(''Content-Type'', ''text/event-stream''),
                         (''Cache-Control'', ''no-cache''), (''Connection'', ''keep-alive'')],
             logged := [(''starting command'',
                         [zap_String ''command'' ''sh'',
                          zap_Strings ''args'' [''-c'', ''echo out; echo err 1>&2''],
                          zap_Error ''fork/exec /bin/nope: no such file or directory''])],
             resolver_calls := [''-c'', ''echo out; echo err 1>&2''],
             created := [\<lparr>cmd_ctx = WithDeadline RequestContext 5000001000, cmd_name = ''sh'',
                           cmd_argv = [''-c'', ''echo out; echo err 1>&2''], cmd_Dir = []\<rparr>]\<rparr>) \<and>
   written (snd (returned (ServeHTTP sh_Cmd (example_env unstartable_process)))) = []"
  by (simp add: ServeHTTP_def resolve_args_eq serve_stream_def writer_defs CommandContext_def
      cmd_Start_def run_ctx_def WithTimeout_def Let_def fresh_def example_defs)

subsection \<open>C2: the response of a detached run\<close>

text \<open>
  C2 says that a detached run (no stream, no foreground, no pass-through) answers a
  success with \<open>{"status":"success"}\<close> and a success status, and a failure with a
  non-2xx status and \<open>{"status":"error","error":message}\<close>, never with stdout or stderr.
  The handler does answer a success so, with status 200. On a failure it sends status
  500 and an object with the member \<open>error\<close> only: the struct's \<open>status\<close> is left empty
  and its tag \<open>omitempty\<close> drops it (as it drops \<open>error\<close> when the message is empty).
  The member \<open>error\<close> is the message as \<open>encoding/json\<close> writes a string, which is the
  message itself when it is valid UTF-8. Neither body has a member \<open>stdout\<close> or \<open>stderr\<close>.
\<close>

theorem detached_response:
  assumes "replacer e = Some repl" and "\<not> Stream m" and "\<not> Foreground m" and "\<not> PassThru m"
  shows "\<exists>r s doc.
           ServeHTTP m e = Return (r, s) \<and> written s = [Document doc] \<and>
           (case run e (map repl (Args m)) of
              None \<Rightarrow> status_code s = Some 200 \<and> doc = [(''status'', JString ''success'')]
            | Some err \<Rightarrow>
                status_code s = Some 500 \<and>
                doc = (if Error_text err = [] then []
                       else [(''error'', JString (json_string (Error_text err)))]) \<and>
                (ValidString (Error_text err) \<longrightarrow>
                   doc = (if Error_text err = [] then []
                          else [(''error'', JString (Error_text err))]))) \<and>
           ''stdout'' \<notin> fst ` set doc \<and> ''stderr'' \<notin> fst ` set doc"
  unfolding ServeHTTP_run [OF assms(1,2) disjI1 [OF assms(3)] refl]
  using assms(4)
  by (cases "run e (map repl (Args m))")
     (simp_all add: status_code_def status_json_def omitempty_def fresh_def
        json_string_empty valid_json_string)

theorem detached_response_witness:
  "replacer (example_env echo_process) = Some example_replacer \<and>
   replacer failing_run_env = Some example_replacer \<and>
   \<not> Stream false_Cmd \<and> \<not> Foreground false_Cmd \<and> \<not> PassThru false_Cmd \<and>
   ValidString ''exit status 1'' \<and>
   (\<exists>r s. ServeHTTP false_Cmd (example_env echo_process) = Return (r, s) \<and>
          written s = [Document [(''status'', JString ''success'')]] \<and>
          status_code s = Some 200) \<and>
   (\<exists>r s. ServeHTTP false_Cmd failing_run_env = Return (r, s) \<and>
          written s = [Document [(''error'', JString ''exit status 1'')]] \<and>
          status_code s = Some 500)"
  using detached_response [of "example_env echo_process" example_replacer false_Cmd]
    detached_response [of failing_run_env example_replacer false_Cmd]
  by (simp add: example_defs)

text \<open>
  C2 as stated fails on scenario B of the specification: the detached run of \<open>false\<close>
  is answered with \<open>{"error":"exit status 1"}\<close>, without the member \<open>status\<close>.
\<close>

theorem detached_failure_counterexample:
  "\<not> Stream false_Cmd \<and> \<not> Foreground false_Cmd \<and> \<not> PassThru false_Cmd \<and>
   run failing_run_env [] = Some (ExitError (Exited 1) ''exit status 1'') \<and>
   written (snd (returned (ServeHTTP false_Cmd failing_run_env))) =
     [Document [(''error'', JString ''exit status 1'')]] \<and>
   written (snd (returned (ServeHTTP false_Cmd failing_run_env))) \<noteq>
     [Document [(''status'', JString ''error''), (''error'', JString ''exit status 1'')]]"
  by (simp add: ServeHTTP_def resolve_args_eq call_run_def writer_defs status_json_def
      omitempty_def fresh_def example_defs)

subsection \<open>C3: the response of a collected run\<close>

text \<open>
  C3: for every collected run (foreground, no pass-through, no stream) the JSON object
  has the members \<open>status\<close> and \<open>exit_code\<close>, and \<open>exit_code\<close> is 0 exactly when \<open>status\<close>
  is "success"; a process that exits with a code other than 0 gives \<open>status\<close> "error"
  and that code; a process that could not be started gives \<open>exit_code\<close> -1; the member
  \<open>error\<close> is present only when \<open>status\<close> is "error"; \<open>stdout\<close>, \<open>stderr\<close> and \<open>exit_code\<close>
  are always present.
\<close>

theorem collected_response:
  assumes "replacer e = Some repl" and "\<not> Stream m" and "Foreground m" and "\<not> PassThru m"
    and "p = os_process e \<lparr>cmd_ctx = run_ctx m e, cmd_name = Command m,
                             cmd_argv = map repl (Args m), cmd_Dir = Directory m\<rparr>"
  shows "\<exists>r s doc status code.
           ServeHTTP m e = Return (r, s) \<and> written s = [Document doc] \<and>
           distinct (map fst doc) \<and>
           map_of doc ''status'' = Some (JString status) \<and>
           map_of doc ''exit_code'' = Some (JInt code) \<and>
           (code = 0) = (status = ''success'') \<and>
           (\<forall>n. start_error p = None \<and> exit_state p = Exited n \<and> n \<noteq> 0 \<longrightarrow>
                status = ''error'' \<and> code = int n) \<and>
           (start_error p \<noteq> None \<longrightarrow> status = ''error'' \<and> code = - 1) \<and>
           (''error'' \<in> fst ` set doc \<longrightarrow> status = ''error'') \<and>
           {''stdout'', ''stderr'', ''exit_code''} \<subseteq> fst ` set doc"
proof -
  define cmd where "cmd = \<lparr>cmd_ctx = run_ctx m e, cmd_name = Command m,
                             cmd_argv = map repl (Args m), cmd_Dir = Directory m\<rparr>"
  have p: "os_process e cmd = p"
    by (simp add: assms(5) cmd_def)
  note nf = ServeHTTP_collected [OF assms(1-4) cmd_def refl, unfolded p]
  show ?thesis
  proof (cases "start_error p")
    case (Some t)
    then show ?thesis
      unfolding nf by (simp add: output_json_def omitempty_def fresh_def)
  next
    case started: None
    show ?thesis
    proof (cases "Success (exit_state p)")
      case False
      then have w: "cmd_Wait p = Some (ExitError (exit_state p) (exit_text p))"
        by (simp add: cmd_Wait_def)
      from False have "ExitCode (exit_state p) \<noteq> 0"
        by (cases "exit_state p") simp_all
      with started False show ?thesis
        unfolding nf w by (auto simp add: output_json_def omitempty_def fresh_def)
    next
      case True
      then have ex: "exit_state p = Exited 0"
        by (cases "exit_state p") simp_all
      show ?thesis
      proof (cases "wait_error p")
        case None
        with True have w: "cmd_Wait p = None"
          by (simp add: cmd_Wait_def)
        from started ex show ?thesis
          unfolding nf w by (simp add: output_json_def omitempty_def fresh_def)
      next
        case (Some t)
        with True have w: "cmd_Wait p = Some (ExecError t)"
          by (simp add: cmd_Wait_def)
        from started ex show ?thesis
          unfolding nf w by (simp add: output_json_def omitempty_def fresh_def)
      qed
    qed
  qed
qed

theorem collected_response_witness:
  "replacer (example_env exit3_process) = Some example_replacer \<and>
   replacer (example_env unstartable_process) = Some example_replacer \<and>
   \<not> Stream echo_Cmd \<and> Foreground echo_Cmd \<and> \<not> PassThru echo_Cmd \<and>
   start_error exit3_process = None \<and> exit_state exit3_process = Exited 3 \<and> (3::nat) \<noteq> 0 \<and>
   start_error unstartable_process \<noteq> None \<and>
   (\<exists>r s doc status code.
      ServeHTTP echo_Cmd (example_env exit3_process) = Return (r, s) \<and> written s = [Document doc] \<and>
      distinct (map fst doc) \<and>
      map_of doc ''status'' = Some (JString status) \<and>
      map_of doc ''exit_code'' = Some (JInt code) \<and>
      (code = 0) = (status = ''success'') \<and>
      (\<forall>n. start_error exit3_process = None \<and> exit_state exit3_process = Exited n \<and> n \<noteq> 0 \<longrightarrow>
           status = ''error'' \<and> code = int n) \<and>
      (start_error exit3_process \<noteq> None \<longrightarrow> status = ''error'' \<and> code = - 1) \<and>
      (''error'' \<in> fst ` set doc \<longrightarrow> status = ''error'') \<and>
      {''stdout'', ''stderr'', ''exit_code''} \<subseteq> fst ` set doc) \<and>
   (\<exists>r s doc status code.
      ServeHTTP echo_Cmd (example_env unstartable_process) = Return (r, s) \<and> written s = [Document doc] \<and>
      distinct (map fst doc) \<and>
      map_of doc ''status'' = Some (JString status) \<and>
      map_of doc ''exit_code'' = Some (JInt code) \<and>
      (code = 0) = (status = ''success'') \<and>
      (\<forall>n. start_error unstartable_process = None \<and> exit_state unstartable_process = Exited n \<and> n \<noteq> 0 \<longrightarrow>
           status = ''error'' \<and> code = int n) \<and>
      (start_error unstartable_process \<noteq> None \<longrightarrow> status = ''error'' \<and> code = - 1) \<and>
      (''error'' \<in> fst ` set doc \<longrightarrow> status = ''error'') \<and>
      {''stdout'', ''stderr'', ''exit_code''} \<subseteq> fst ` set doc)"
  using collected_response [of "example_env exit3_process" example_replacer echo_Cmd exit3_process]
    collected_response [of "example_env unstartable_process" example_replacer echo_Cmd
      unstartable_process]
  by (simp add: example_defs)

subsection \<open>C4: which errors the handler returns\<close>

text \<open>
  C4 says that no error of the process is returned to the host: only the failures of
  writing the response are. What the handler returns is this. Without streaming, the
  errors of the process (a failed start, a non-zero exit, a cancellation) are answered
  in the JSON response or, with pass-through, logged; the handler returns the error of
  the write of the response, or with pass-through the result of the next handler. With
  streaming, a non-zero exit or a cancellation after the start becomes an error event
  and the handler returns nil, and so it does when the writer cannot flush; but when a
  pipe cannot be created or the process cannot be started, the handler logs the error
  and returns it to the host.
\<close>

theorem returned_error:
  assumes "replacer e = Some repl"
    and "p = os_process e \<lparr>cmd_ctx = run_ctx m e, cmd_name = Command m,
                             cmd_argv = map repl (Args m), cmd_Dir = Directory m\<rparr>"
  shows "\<exists>s. ServeHTTP m e =
           Return
            (if Stream m then
               (if is_Flusher e then
                  (case stdout_pipe_error p of
                     Some t \<Rightarrow> Some (ExecError t)
                   | None \<Rightarrow>
                      (case stderr_pipe_error p of
                         Some t \<Rightarrow> Some (ExecError t)
                       | None \<Rightarrow> map_option ExecError (start_error p)))
                else None)
             else if PassThru m then next_result e
             else map_option WriteError (write_error e), s)"
proof (cases "Stream m")
  case True
  show ?thesis
  proof (cases "is_Flusher e")
    case True
    from stream_summary [OF assms(1) \<open>Stream m\<close> True refl assms(2)] \<open>Stream m\<close> True
    show ?thesis by auto
  next
    case False
    with \<open>Stream m\<close> show ?thesis
      unfolding ServeHTTP_no_flusher [OF assms(1) \<open>Stream m\<close> False] by simp
  qed
next
  case False
  show ?thesis
  proof (cases "\<not> Foreground m \<or> PassThru m")
    case True
    with False show ?thesis
      unfolding ServeHTTP_run [OF assms(1) False True refl] by simp
  next
    case False
    then have fg: "Foreground m" and np: "\<not> PassThru m"
      by simp_all
    with \<open>\<not> Stream m\<close> show ?thesis
      unfolding ServeHTTP_collected [OF assms(1) \<open>\<not> Stream m\<close> fg np refl refl] by simp
  qed
qed

theorem returned_error_witness:
  "replacer (example_env exit3_process) = Some example_replacer \<and>
   replacer failing_run_env = Some example_replacer \<and>
   (\<exists>s. ServeHTTP sh_Cmd (example_env exit3_process) = Return (None, s)) \<and>
   (\<exists>s. ServeHTTP echo_Cmd (example_env exit3_process) = Return (None, s)) \<and>
   (\<exists>s. ServeHTTP false_Cmd failing_run_env = Return (None, s))"
  using returned_error [of "example_env exit3_process" example_replacer exit3_process sh_Cmd]
    returned_error [of "example_env exit3_process" example_replacer exit3_process echo_Cmd]
    returned_error [of failing_run_env example_replacer echo_process false_Cmd]
  by (simp add: example_defs)

text \<open>
  C4 as stated fails for a streamed run whose process cannot be started: the error of
  \<open>cmd.Start\<close> is what \<open>ServeHTTP\<close> returns, although no write has failed.
\<close>

theorem start_error_returned_counterexample:
  "start_error unstartable_process = Some ''fork/exec /bin/nope: no such file or directory'' \<and>
   write_error (example_env unstartable_process) = None \<and>
   fst (returned (ServeHTTP sh_Cmd (example_env unstartable_process))) =
     Some (ExecError ''fork/exec /bin/nope: no such file or directory'')"
  by (simp add: ServeHTTP_def resolve_args_eq serve_stream_def writer_defs CommandContext_def
      cmd_Start_def run_ctx_def WithTimeout_def Let_def fresh_def example_defs)

subsection \<open>C5: streaming takes precedence\<close>

text \<open>
  C5 says that whenever \<open>stream\<close> is set the flags \<open>foreground\<close> and \<open>passThru\<close> have no
  effect, the streamed strategy runs, the SSE response is written by the handler and
  the next handler is never called. What holds: the two flags change nothing in what
  the handler does, and neither the next handler nor \<open>m.run\<close> is ever called; when the
  writer can flush and the process can be started (both pipes created, start
  succeeded), the streamed strategy runs and the handler itself writes the SSE
  response: the command is created and started, the status 200 is sent with the three
  headers of an event stream, the frames written are the stdout and stderr lines in an
  interleaving, then the error event if \<open>cmd.Wait\<close> returns an error, then the close
  event, and the last call on the writer is a flush.
\<close>

theorem stream_takes_precedence:
  assumes "replacer e = Some repl" and "Stream m"
    and "cmd = \<lparr>cmd_ctx = run_ctx m e, cmd_name = Command m, cmd_argv = map repl (Args m),
                 cmd_Dir = Directory m\<rparr>"
    and "p = os_process e cmd"
  shows "ServeHTTP (m\<lparr>Foreground := fg, PassThru := pt\<rparr>) e = ServeHTTP m e \<and>
         (\<exists>r s. ServeHTTP m e = Return (r, s) \<and> next_calls s = 0 \<and> run_calls s = [] \<and>
            (is_Flusher e \<and> stdout_pipe_error p = None \<and> stderr_pipe_error p = None \<and>
             start_error p = None \<longrightarrow>
               r = None \<and> created s = [cmd] \<and> started s = [cmd] \<and>
               wrote_header s =
                 Some (200, [(''Content-Type'', ''text/event-stream''),
                             (''Cache-Control'', ''no-cache''),
                             (''Connection'', ''keep-alive'')]) \<and>
               (\<exists>lines.
                  lines \<in> shuffles (map StdoutLine (Scan_lines (stdout_data p)))
                                   (map StderrLine (Scan_lines (stderr_data p))) \<and>
                  filter (\<lambda>c. c \<noteq> Flushed) (written s) =
                    map (\<lambda>ev. Bytes (frame ev))
                      (lines @
                       (case cmd_Wait p of
                          None \<Rightarrow> [] | Some err \<Rightarrow> [ErrorEvent (Error_text err)]) @
                       [CloseEvent])) \<and>
               last (written s) = Flushed))"
proof
  let ?m' = "m\<lparr>Foreground := fg, PassThru := pt\<rparr>"
  have eqs: "Command ?m' = Command m" "Args ?m' = Args m" "Directory ?m' = Directory m"
    "timeout ?m' = timeout m" "Stream ?m' = True" "Stream m = True"
    using assms(2) by simp_all
  show "ServeHTTP ?m' e = ServeHTTP m e"
    unfolding ServeHTTP_def serve_stream_def run_ctx_def eqs not_True_eq_False if_False
    by (rule refl)
next
  let ?s0 = "fresh\<lparr>header := [(''Content-Type'', ''text/event-stream''),
                                 (''Cache-Control'', ''no-cache''),
                                 (''Connection'', ''keep-alive'')],
                     resolver_calls := Args m, created := [cmd], started := [cmd]\<rparr>"
  show "\<exists>r s. ServeHTTP m e = Return (r, s) \<and> next_calls s = 0 \<and> run_calls s = [] \<and>
            (is_Flusher e \<and> stdout_pipe_error p = None \<and> stderr_pipe_error p = None \<and>
             start_error p = None \<longrightarrow>
               r = None \<and> created s = [cmd] \<and> started s = [cmd] \<and>
               wrote_header s =
                 Some (200, [(''Content-Type'', ''text/event-stream''),
                             (''Cache-Control'', ''no-cache''),
                             (''Connection'', ''keep-alive'')]) \<and>
               (\<exists>lines.
                  lines \<in> shuffles (map StdoutLine (Scan_lines (stdout_data p)))
                                   (map StderrLine (Scan_lines (stderr_data p))) \<and>
                  filter (\<lambda>c. c \<noteq> Flushed) (written s) =
                    map (\<lambda>ev. Bytes (frame ev))
                      (lines @
                       (case cmd_Wait p of
                          None \<Rightarrow> [] | Some err \<Rightarrow> [ErrorEvent (Error_text err)]) @
                       [CloseEvent])) \<and>
               last (written s) = Flushed)"
  proof (cases "is_Flusher e \<and> stdout_pipe_error p = None \<and> stderr_pipe_error p = None \<and>
             start_error p = None")
    case True
    then have nf: "ServeHTTP m e = Return (None, stream_events e p ?s0)"
      using ServeHTTP_stream [OF assms(1,2) _ assms(3) refl] by (simp add: assms(4))
    have w: "written ?s0 = []"
      by (simp add: fresh_def)
    show ?thesis
      unfolding nf using stream_events_frames [OF w, of p e]
      by (simp add: stream_events_other stream_events_wrote_header stream_events_last
          fresh_def del: frame.simps)
  next
    case False
    show ?thesis
    proof (cases "is_Flusher e")
      case fl: True
      from stream_summary [OF assms(1,2) fl assms(3,4)] False fl show ?thesis
        by auto
    next
      case nofl: False
      then show ?thesis
        unfolding ServeHTTP_no_flusher [OF assms(1,2) nofl] by (simp add: fresh_def)
    qed
  qed
qed

theorem stream_takes_precedence_witness:
  "replacer (example_env sh_process) = Some example_replacer \<and> Stream sh_Cmd \<and>
   is_Flusher (example_env sh_process) \<and>
   stdout_pipe_error sh_process = None \<and> stderr_pipe_error sh_process = None \<and>
   start_error sh_process = None \<and>
   ServeHTTP (sh_Cmd\<lparr>Foreground := True, PassThru := True\<rparr>) (example_env sh_process) =
     ServeHTTP sh_Cmd (example_env sh_process) \<and>
   (\<exists>r s. ServeHTTP sh_Cmd (example_env sh_process) = Return (r, s) \<and>
      next_calls s = 0 \<and> run_calls s = [] \<and> r = None \<and>
      created s = [\<lparr>cmd_ctx = WithDeadline RequestContext 5000001000, cmd_name = ''sh'',
                     cmd_argv = [''-c'', ''echo out; echo err 1>&2''], cmd_Dir = []\<rparr>] \<and>
      started s = [\<lparr>cmd_ctx = WithDeadline RequestContext 5000001000, cmd_name = ''sh'',
                     cmd_argv = [''-c'', ''echo out; echo err 1>&2''], cmd_Dir = []\<rparr>] \<and>
      wrote_header s =
        Some (200, [(''Content-Type'', ''text/event-stream''),
                    (''Cache-Control'', ''no-cache''), (''Connection'', ''keep-alive'')]) \<and>
      (\<exists>lines.
         lines \<in> shuffles [StdoutLine ''out''] [StderrLine ''err''] \<and>
         filter (\<lambda>c. c \<noteq> Flushed) (written s) =
           map (\<lambda>ev. Bytes (frame ev)) (lines @ [CloseEvent])) \<and>
      last (written s) = Flushed)"
  using stream_takes_precedence [of "example_env sh_process" example_replacer sh_Cmd
      "\<lparr>cmd_ctx = WithDeadline RequestContext 5000001000, cmd_name = ''sh'',
        cmd_argv = [''-c'', ''echo out; echo err 1>&2''], cmd_Dir = []\<rparr>" sh_process True True]
  by (simp add: example_defs Scan_lines_def MaxScanTokenSize_def dropCR_def cmd_Wait_def
      del: frame.simps shuffles.simps)

text \<open>
  C5 as stated fails when the writer cannot flush: no command is created or started and
  the response is not an event stream but the status 500 with a plain text.
\<close>

theorem stream_without_flusher_counterexample:
  "Stream sh_Cmd \<and> \<not> is_Flusher ((example_env sh_process)\<lparr>is_Flusher := False\<rparr>) \<and>
   returned (ServeHTTP sh_Cmd ((example_env sh_process)\<lparr>is_Flusher := False\<rparr>)) =
     (None,
      fresh\<lparr>header := [(''Cache-Control'', ''no-cache''), (''Connection'', ''keep-alive''),
                         (''Content-Type'', ''text/plain; charset=utf-8''),
                         (''X-Content-Type-Options'', ''nosniff'')],
             wrote_header :=
               Some (500, [(''Cache-Control'', ''no-cache''), (''Connection'', ''keep-alive''),
                           (''Content-Type'', ''text/plain; charset=utf-8''),
                           (''X-Content-Type-Options'', ''nosniff'')]),
             written := [Bytes (''Streaming unsupported!'' @ [CHR 0x0A])],
             logged := [(''streaming unsupported'', [])],
             resolver_calls := [''-c'', ''echo out; echo err 1>&2'']\<rparr>) \<and>
   created (snd (returned (ServeHTTP sh_Cmd ((example_env sh_process)\<lparr>is_Flusher := False\<rparr>)))) = [] \<and>
   started (snd (returned (ServeHTTP sh_Cmd ((example_env sh_process)\<lparr>is_Flusher := False\<rparr>)))) = []"
  by (simp add: ServeHTTP_def resolve_args_eq serve_stream_def http_Error_def writer_defs
      Let_def fresh_def example_defs)

subsection \<open>C6: pass-through\<close>

text \<open>
  C6: for every run without streaming and with pass-through, detached or foreground,
  the next handler is called exactly once whether the process succeeded or failed and
  its result is what the handler returns; the error of the process, if any, is only
  logged; the handler sets no header, writes no status and writes no body.
\<close>

theorem passthru_continues:
  assumes "replacer e = Some repl" and "\<not> Stream m" and "PassThru m"
  shows "\<exists>s. ServeHTTP m e = Return (next_result e, s) \<and> next_calls s = 1 \<and>
           written s = [] \<and> wrote_header s = None \<and> header s = [] \<and>
           run_calls s = [map repl (Args m)] \<and> created s = [] \<and>
           logged s = (case run e (map repl (Args m)) of
                         None \<Rightarrow> [] | Some err \<Rightarrow> [(Error_text err, [])])"
  unfolding ServeHTTP_run [OF assms(1,2) disjI2 [OF assms(3)] refl]
  using assms(3) by (simp add: fresh_def)

theorem passthru_continues_witness:
  "replacer failing_run_env = Some example_replacer \<and>
   \<not> Stream (echo_Cmd\<lparr>PassThru := True\<rparr>) \<and> PassThru (echo_Cmd\<lparr>PassThru := True\<rparr>) \<and>
   \<not> Stream (false_Cmd\<lparr>PassThru := True\<rparr>) \<and> PassThru (false_Cmd\<lparr>PassThru := True\<rparr>) \<and>
   (\<exists>s. ServeHTTP (echo_Cmd\<lparr>PassThru := True\<rparr>) failing_run_env = Return (None, s) \<and>
        next_calls s = 1 \<and> written s = [] \<and> wrote_header s = None \<and> header s = [] \<and>
        run_calls s = [[''hello'']] \<and> created s = [] \<and>
        logged s = [(''exit status 1'', [])]) \<and>
   (\<exists>s. ServeHTTP (false_Cmd\<lparr>PassThru := True\<rparr>) failing_run_env = Return (None, s) \<and>
        next_calls s = 1 \<and> written s = [] \<and> wrote_header s = None \<and> header s = [] \<and>
        run_calls s = [[]] \<and> created s = [] \<and>
        logged s = [(''exit status 1'', [])])"
  using passthru_continues [of failing_run_env example_replacer "echo_Cmd\<lparr>PassThru := True\<rparr>"]
    passthru_continues [of failing_run_env example_replacer "false_Cmd\<lparr>PassThru := True\<rparr>"]
  by (simp add: example_defs)

subsection \<open>C7: a writer that cannot flush\<close>

text \<open>
  C7: in streamed mode, when the response writer is not a flusher, the handler logs
  "streaming unsupported", answers with status 500 and the text "Streaming
  unsupported!", and returns without creating or starting any process.
\<close>

theorem no_flusher_no_process:
  assumes "replacer e = Some repl" and "Stream m" and "\<not> is_Flusher e"
  shows "\<exists>s. ServeHTTP m e = Return (None, s) \<and>
           logged s = [(''streaming unsupported'', [])] \<and>
           status_code s = Some 500 \<and>
           written s = [Bytes (''Streaming unsupported!'' @ [CHR 0x0A])] \<and>
           created s = [] \<and> started s = [] \<and> run_calls s = [] \<and> next_calls s = 0"
  unfolding ServeHTTP_no_flusher [OF assms]
  by (simp add: status_code_def fresh_def)

theorem no_flusher_no_process_witness:
  "replacer ((example_env sh_process)\<lparr>is_Flusher := False\<rparr>) = Some example_replacer \<and>
   Stream sh_Cmd \<and> \<not> is_Flusher ((example_env sh_process)\<lparr>is_Flusher := False\<rparr>) \<and>
   (\<exists>s. ServeHTTP sh_Cmd ((example_env sh_process)\<lparr>is_Flusher := False\<rparr>) = Return (None, s) \<and>
        logged s = [(''streaming unsupported'', [])] \<and>
        status_code s = Some 500 \<and>
        written s = [Bytes (''Streaming unsupported!'' @ [CHR 0x0A])] \<and>
        created s = [] \<and> started s = [] \<and> run_calls s = [] \<and> next_calls s = 0)"
  using no_flusher_no_process [of "(example_env sh_process)\<lparr>is_Flusher := False\<rparr>"
      example_replacer sh_Cmd]
  by (simp add: example_defs)

subsection \<open>C8: the scope of the process\<close>



subsection \<open>C9: the arguments are resolved once, before the mode is chosen\<close>

text \<open>
  C9: the loop over the templates yields the vector with one element per template, the
  replacer applied to that template; every template is handed to the replacer exactly
  once, in order, whatever the mode flags are; and the strategy that runs (\<open>m.run\<close> for a
  detached or pass-through run, the command created for a collected or streamed run)
  receives that vector unchanged. Only a streamed run whose writer cannot flush starts
  no strategy.
\<close>

theorem arguments_resolved_once:
  assumes "replacer e = Some repl"
  shows "fst (resolve_args repl (Args m) fresh) = map repl (Args m) \<and>
         (\<exists>r s. ServeHTTP m e = Return (r, s) \<and> resolver_calls s = Args m \<and>
            run_calls s @ map cmd_argv (created s) =
              (if Stream m \<and> \<not> is_Flusher e then [] else [map repl (Args m)]))"
proof -
  have "\<exists>r s. ServeHTTP m e = Return (r, s) \<and> resolver_calls s = Args m \<and>
            run_calls s @ map cmd_argv (created s) =
              (if Stream m \<and> \<not> is_Flusher e then [] else [map repl (Args m)])"
  proof (cases "Stream m")
    case True
    show ?thesis
    proof (cases "is_Flusher e")
      case True
      from stream_summary [OF assms(1) \<open>Stream m\<close> True refl refl] \<open>Stream m\<close> True
      show ?thesis by auto
    next
      case False
      with \<open>Stream m\<close> show ?thesis
        unfolding ServeHTTP_no_flusher [OF assms(1) \<open>Stream m\<close> False] by (simp add: fresh_def)
    qed
  next
    case False
    show ?thesis
    proof (cases "\<not> Foreground m \<or> PassThru m")
      case True
      with False show ?thesis
        unfolding ServeHTTP_run [OF assms(1) False True refl] by (simp add: fresh_def)
    next
      case False
      then have fg: "Foreground m" and np: "\<not> PassThru m"
        by simp_all
      define cmd where "cmd = \<lparr>cmd_ctx = run_ctx m e, cmd_name = Command m,
                               cmd_argv = map repl (Args m), cmd_Dir = Directory m\<rparr>"
      from \<open>\<not> Stream m\<close> show ?thesis
        unfolding ServeHTTP_collected [OF assms(1) \<open>\<not> Stream m\<close> fg np cmd_def refl]
        by (cases "start_error (os_process e cmd)"; cases "cmd_Wait (os_process e cmd)")
           (simp_all add: fresh_def cmd_def)
    qed
  qed
  then show ?thesis
    by (simp add: resolve_args_eq)
qed

theorem arguments_resolved_once_witness:
  "replacer (example_env echo_process) = Some example_replacer \<and>
   (\<exists>r s. ServeHTTP echo_Cmd (example_env echo_process) = Return (r, s) \<and>
      resolver_calls s = [''{http.request.uri.query.msg}''] \<and>
      run_calls s @ map cmd_argv (created s) = [[''hello'']]) \<and>
   (\<exists>r s. ServeHTTP false_Cmd (example_env echo_process) = Return (r, s) \<and>
      resolver_calls s = [] \<and>
      run_calls s @ map cmd_argv (created s) = [[]]) \<and>
   (\<exists>r s. ServeHTTP sh_Cmd (example_env echo_process) = Return (r, s) \<and>
      resolver_calls s = [''-c'', ''echo out; echo err 1>&2''] \<and>
      run_calls s @ map cmd_argv (created s) = [[''-c'', ''echo out; echo err 1>&2'']])"
  using arguments_resolved_once [of "example_env echo_process" example_replacer echo_Cmd]
    arguments_resolved_once [of "example_env echo_process" example_replacer false_Cmd]
    arguments_resolved_once [of "example_env echo_process" example_replacer sh_Cmd]
  by (simp add: example_defs)

subsection \<open>C10: the output of a collected run\<close>

text \<open>
  C10 says that the members \<open>stdout\<close> and \<open>stderr\<close> of a collected run always carry
  whatever the process wrote, also when the run failed. What holds: for every collected
  run without pass-through, whatever the result of the run is, the two members are what
  the process wrote until it ended (nothing when it could not be started) as
  \<open>encoding/json\<close> writes a string: every byte that is not part of a valid UTF-8 encoding
  is replaced by U+FFFD. Output that is valid UTF-8 is carried unchanged.
\<close>

theorem collected_output:
  assumes "replacer e = Some repl" and "\<not> Stream m" and "Foreground m" and "\<not> PassThru m"
    and "p = os_process e \<lparr>cmd_ctx = run_ctx m e, cmd_name = Command m,
                             cmd_argv = map repl (Args m), cmd_Dir = Directory m\<rparr>"
    and "out = (case start_error p of None \<Rightarrow> stdout_data p | Some t \<Rightarrow> [])"
    and "err = (case start_error p of None \<Rightarrow> stderr_data p | Some t \<Rightarrow> [])"
  shows "\<exists>r s doc.
           ServeHTTP m e = Return (r, s) \<and> written s = [Document doc] \<and>
           map_of doc ''stdout'' = Some (JString (json_string out)) \<and>
           map_of doc ''stderr'' = Some (JString (json_string err)) \<and>
           (ValidString out \<longrightarrow> map_of doc ''stdout'' = Some (JString out)) \<and>
           (ValidString err \<longrightarrow> map_of doc ''stderr'' = Some (JString err))"
proof -
  define cmd where "cmd = \<lparr>cmd_ctx = run_ctx m e, cmd_name = Command m,
                             cmd_argv = map repl (Args m), cmd_Dir = Directory m\<rparr>"
  have p: "os_process e cmd = p"
    by (simp add: assms(5) cmd_def)
  note nf = ServeHTTP_collected [OF assms(1-4) cmd_def refl, unfolded p]
  show ?thesis
  proof (cases "start_error p")
    case (Some t)
    then show ?thesis
      unfolding nf
      by (simp add: output_json_def omitempty_def fresh_def assms(6,7) json_string_literals)
  next
    case None
    then show ?thesis
      unfolding nf
      by (cases "cmd_Wait p")
         (simp_all add: output_json_def omitempty_def fresh_def assms(6,7) valid_json_string)
  qed
qed

theorem collected_output_witness:
  "replacer sleep_env = Some example_replacer \<and>
   \<not> Stream echo_Cmd \<and> Foreground echo_Cmd \<and> \<not> PassThru echo_Cmd \<and>
   ValidString (''begin'' @ [CHR 0x0A]) \<and> ValidString [] \<and>
   (\<exists>r s doc.
      ServeHTTP echo_Cmd sleep_env = Return (r, s) \<and> written s = [Document doc] \<and>
      map_of doc ''stdout'' = Some (JString (''begin'' @ [CHR 0x0A])) \<and>
      map_of doc ''stderr'' = Some (JString []))"
proof -
  have v: "ValidString (''begin'' @ [CHR 0x0A])" "ValidString []"
    by code_simp+
  have h: "replacer sleep_env = Some example_replacer"
    "\<not> Stream echo_Cmd" "Foreground echo_Cmd" "\<not> PassThru echo_Cmd"
    by (simp_all add: example_defs)
  define p where "p = os_process sleep_env
      \<lparr>cmd_ctx = run_ctx echo_Cmd sleep_env, cmd_name = Command echo_Cmd,
         cmd_argv = map example_replacer (Args echo_Cmd), cmd_Dir = Directory echo_Cmd\<rparr>"
  have p: "start_error p = None" "stdout_data p = ''begin'' @ [CHR 0x0A]" "stderr_data p = []"
    by (simp_all add: p_def example_defs)
  from collected_output [OF h p_def refl refl] v
  have "\<exists>r s doc.
      ServeHTTP echo_Cmd sleep_env = Return (r, s) \<and> written s = [Document doc] \<and>
      map_of doc ''stdout'' = Some (JString (''begin'' @ [CHR 0x0A])) \<and>
      map_of doc ''stderr'' = Some (JString [])"
    by (simp add: p) blast
  with h v show ?thesis
    by (intro conjI)
qed

text \<open>
  C10 as stated fails for a process that writes the byte FF and a line feed: the member
  \<open>stdout\<close> is U+FFFD and a line feed.
\<close>

theorem binary_output_counterexample:
  "\<not> Stream echo_Cmd \<and> Foreground echo_Cmd \<and> \<not> PassThru echo_Cmd \<and>
   stdout_data
     (os_process (example_env binary_process)
        \<lparr>cmd_ctx = RequestContext, cmd_name = ''echo'', cmd_argv = [''hello''], cmd_Dir = []\<rparr>) =
     [CHR 0xFF, CHR 0x0A] \<and>
   written (snd (returned (ServeHTTP echo_Cmd (example_env binary_process)))) =
     [Document [(''status'', JString ''success''),
                (''stdout'', JString [CHR 0xEF, CHR 0xBF, CHR 0xBD, CHR 0x0A]),
                (''stderr'', JString []),
                (''exit_code'', JInt 0)]] \<and>
   [CHR 0xEF, CHR 0xBF, CHR 0xBD, CHR 0x0A] \<noteq> [CHR 0xFF, CHR 0x0A]"
  by (simp add: ServeHTTP_def resolve_args_eq runAndCollectOutput_def CommandContext_def
      cmd_Run_def cmd_Start_def cmd_Wait_def writer_defs output_json_def
      omitempty_def json_string_def utf8_first_def Let_def fresh_def example_defs)

end
